theory Spec2Isabelle
  imports Main "HOL-Library.Sublist"
begin

section \<open>JavaScript values and strings\<close>

text \<open>
  The two scripts verified here are the element finder (class \<open>ElementFinder\<close>) and the deep
  inspector (class \<open>UIElementDiscovery\<close>, file \<open>deep-inspect.js\<close>). Both talk to a remote
  device through a WebdriverIO driver. Strings are lists of characters. An attribute read
  (\<open>getAttribute\<close>) resolves to a string or to \<open>null\<close>; \<open>getText\<close>, \<open>getTagName\<close> and
  \<open>getCurrentActivity\<close> resolve to strings. A thrown exception is a value of type \<open>error\<close>.
  Console output is not modelled.
\<close>

datatype error = Error string

datatype jsval = JNull | JStr string

text \<open>Truthiness of a string-or-null value: \<open>null\<close> and the empty string are falsy.\<close>

fun truthy :: "jsval \<Rightarrow> bool" where
  "truthy JNull = False"
| "truthy (JStr s) = (s \<noteq> [])"

text \<open>Template interpolation \<open>${v}\<close> of a string-or-null value.\<close>

fun interp :: "jsval \<Rightarrow> string" where
  "interp JNull = ''null''"
| "interp (JStr s) = s"

text \<open>
  \<open>String.prototype.trim\<close>: strips white space and line terminators from both ends. Of the
  code points below 256 these are TAB, LF, VT, FF, CR, SPACE and NBSP.
\<close>

definition is_ws :: "char \<Rightarrow> bool" where
  "is_ws c = (of_char c \<in> {9, 10, 11, 12, 13, 32, 160 :: nat})"

definition trim :: "string \<Rightarrow> string" where
  "trim s = rev (dropWhile is_ws (rev (dropWhile is_ws s)))"

text \<open>\<open>v && v.trim()\<close> as a condition, for a string-or-null value.\<close>

fun truthy_trimmed :: "jsval \<Rightarrow> bool" where
  "truthy_trimmed JNull = False"
| "truthy_trimmed (JStr s) = (s \<noteq> [] \<and> trim s \<noteq> [])"

text \<open>\<open>v.trim()\<close> inside a template, reached only where \<open>v\<close> is a string.\<close>

fun trimv :: "jsval \<Rightarrow> string" where
  "trimv JNull = ''null''"
| "trimv (JStr s) = trim s"

text \<open>\<open>s.startsWith(p)\<close>.\<close>

definition startsWith :: "string \<Rightarrow> string \<Rightarrow> bool" where
  "startsWith s p = (take (length p) s = p)"

text \<open>Decimal rendering of an array index inside a template.\<close>

definition digit_char :: "nat \<Rightarrow> char" where
  "digit_char d =
     (if d = 0 then CHR ''0'' else if d = 1 then CHR ''1'' else if d = 2 then CHR ''2''
      else if d = 3 then CHR ''3'' else if d = 4 then CHR ''4'' else if d = 5 then CHR ''5''
      else if d = 6 then CHR ''6'' else if d = 7 then CHR ''7'' else if d = 8 then CHR ''8''
      else CHR ''9'')"

fun string_of_nat :: "nat \<Rightarrow> string" where
  "string_of_nat n =
     (if n < 10 then [digit_char n] else string_of_nat (n div 10) @ [digit_char (n mod 10)])"

declare string_of_nat.simps [simp del]

text \<open>The rectangle returned by \<open>getRect\<close>; \<open>EmptyObject\<close> is the literal \<open>{}\<close>.\<close>

datatype rect = EmptyObject | Rect int int int int

section \<open>Selector synthesis\<close>

text \<open>
  \<open>ElementFinder.generateSelectors(text, className, resourceId, contentDesc)\<close>: the array
  starts empty and each \<open>push\<close> appends at the end.
\<close>

definition generateSelectors :: "string \<Rightarrow> jsval \<Rightarrow> jsval \<Rightarrow> jsval \<Rightarrow> string list" where
  "generateSelectors text className resourceId contentDesc =
     (let selectors = [];
          selectors = (if truthy resourceId
                       then selectors
                            @ [''//*[@resource-id=\"'' @ interp resourceId @ ''\"]'']
                            @ [''android=new UiSelector().resourceId(\"'' @ interp resourceId @ ''\")'']
                       else selectors);
          selectors = (if text \<noteq> [] \<and> trim text \<noteq> []
                       then selectors
                            @ [''//*[@text=\"'' @ trim text @ ''\"]'']
                            @ [''android=new UiSelector().text(\"'' @ trim text @ ''\")'']
                       else selectors);
          selectors = (if truthy_trimmed contentDesc
                       then selectors
                            @ [''//*[@content-desc=\"'' @ trimv contentDesc @ ''\"]'']
                            @ [''android=new UiSelector().description(\"'' @ trimv contentDesc @ ''\")'']
                       else selectors)
      in selectors)"

text \<open>
  \<open>UIElementDiscovery.generateSelector(tagName, text, contentDesc, resourceId)\<close>: the same
  three tiers, the UiSelector form before the XPath form.
\<close>

definition generateSelector :: "string \<Rightarrow> string \<Rightarrow> jsval \<Rightarrow> jsval \<Rightarrow> string list" where
  "generateSelector tagName text contentDesc resourceId =
     (let selectors = [];
          selectors = (if truthy resourceId
                       then selectors
                            @ [''android=new UiSelector().resourceId(\"'' @ interp resourceId @ ''\")'']
                            @ [''//*[@resource-id=\"'' @ interp resourceId @ ''\"]'']
                       else selectors);
          selectors = (if text \<noteq> [] \<and> trim text \<noteq> []
                       then selectors
                            @ [''android=new UiSelector().text(\"'' @ trim text @ ''\")'']
                            @ [''//*[@text=\"'' @ trim text @ ''\"]'']
                       else selectors);
          selectors = (if truthy_trimmed contentDesc
                       then selectors
                            @ [''android=new UiSelector().description(\"'' @ trimv contentDesc @ ''\")'']
                            @ [''//*[@content-desc=\"'' @ trimv contentDesc @ ''\"]'']
                       else selectors)
      in selectors)"

text \<open>
  \<open>UIElementDiscovery.generateInputSelector(hint, resourceId, index)\<close>: the last \<open>push\<close> is
  outside every \<open>if\<close>.
\<close>

definition generateInputSelector :: "jsval \<Rightarrow> jsval \<Rightarrow> nat \<Rightarrow> string list" where
  "generateInputSelector hint resourceId index =
     (let selectors = [];
          selectors = (if truthy resourceId
                       then selectors
                            @ [''android=new UiSelector().resourceId(\"'' @ interp resourceId @ ''\")'']
                            @ [''//*[@resource-id=\"'' @ interp resourceId @ ''\"]'']
                       else selectors);
          selectors = (if truthy_trimmed hint
                       then selectors
                            @ [''android=new UiSelector().textContains(\"'' @ trimv hint @ ''\")'']
                            @ [''//android.widget.EditText[@hint=\"'' @ trimv hint @ ''\"]'']
                       else selectors);
          selectors = selectors @ [''(//android.widget.EditText)['' @ string_of_nat (index + 1) @ '']'']
      in selectors)"

text \<open>
  The tier of a locator string, read off its fixed leading text: 1 for a locator built on the
  resource id, 2 on the exact text, 3 on the content description.
\<close>

definition selector_tier :: "string \<Rightarrow> nat" where
  "selector_tier s =
     (if prefix ''//*[@resource-id=\"'' s \<or> prefix ''android=new UiSelector().resourceId(\"'' s then 1
      else if prefix ''//*[@text=\"'' s \<or> prefix ''android=new UiSelector().text(\"'' s then 2
      else if prefix ''//*[@content-desc=\"'' s \<or> prefix ''android=new UiSelector().description(\"'' s then 3
      else 0)"

text \<open>The positional locator of the \<open>k\<close>-th text field.\<close>

definition positional :: "nat \<Rightarrow> string" where
  "positional k = ''(//android.widget.EditText)['' @ string_of_nat k @ '']''"

section \<open>Descriptors of the element finder and the duplicate filter\<close>

text \<open>
  The object returned by \<open>ElementFinder.getElementInfo\<close>. The properties \<open>inputType\<close> and
  \<open>checked\<close> are added later by \<open>findInputFields\<close> and \<open>findCheckboxes\<close>; \<open>None\<close> means the
  property is absent.
\<close>

record info =
  "text" :: string
  className :: jsval
  resourceId :: jsval
  contentDesc :: jsval
  clickable :: bool
  enabled :: bool
  bounds :: rect
  selectors :: "string list"
  inputType :: "jsval option"
  checked :: "jsval option"

text \<open>\<open>Array.prototype.some\<close>.\<close>

fun some :: "'a list \<Rightarrow> ('a \<Rightarrow> bool) \<Rightarrow> bool" where
  "some [] p = False"
| "some (x # xs) p = (if p x then True else some xs p)"

text \<open>\<open>ElementFinder.isDuplicate(array, newItem)\<close>; \<open>===\<close> on strings and \<open>null\<close> is equality.\<close>

definition isDuplicate :: "info list \<Rightarrow> info \<Rightarrow> bool" where
  "isDuplicate array newItem =
     some array (\<lambda>item. resourceId item = resourceId newItem
                       \<and> text item = text newItem
                       \<and> className item = className newItem)"

text \<open>
  The guarded push every \<open>find...\<close> method performs on its list:
  \<open>if (!this.isDuplicate(list, info)) list.push(info)\<close>.
\<close>

definition pushUnlessDuplicate :: "info list \<Rightarrow> info \<Rightarrow> info list" where
  "pushUnlessDuplicate array newItem =
     (if \<not> isDuplicate array newItem then array @ [newItem] else array)"

section \<open>Computations that call the driver and may throw\<close>

text \<open>
  An asynchronous method is a function from the state before the call to its outcome,
  \<open>Inl\<close> a thrown exception or \<open>Inr\<close> the value it resolves to, and the state after it.
  Every \<open>await\<close> is sequential, so \<open>bindE\<close> is \<open>await\<close> followed by the rest of the block,
  and \<open>catchE\<close> is \<open>try { ... } catch (error) { ... }\<close>: the handler starts from the state the
  exception left, so whatever was pushed before the exception stays pushed.
\<close>

type_synonym ('s, 'a) io = "'s \<Rightarrow> (error + 'a) \<times> 's"

definition returnE :: "'a \<Rightarrow> ('s, 'a) io" where
  "returnE x = (\<lambda>s. (Inr x, s))"

definition throwE :: "error \<Rightarrow> ('s, 'a) io" where
  "throwE e = (\<lambda>s. (Inl e, s))"

definition bindE :: "('s, 'a) io \<Rightarrow> ('a \<Rightarrow> ('s, 'b) io) \<Rightarrow> ('s, 'b) io" where
  "bindE m f = (\<lambda>s. case m s of (Inl e, s') \<Rightarrow> (Inl e, s') | (Inr x, s') \<Rightarrow> f x s')"

definition catchE :: "('s, 'a) io \<Rightarrow> (error \<Rightarrow> ('s, 'a) io) \<Rightarrow> ('s, 'a) io" where
  "catchE m h = (\<lambda>s. case m s of (Inl e, s') \<Rightarrow> h e s' | (Inr x, s') \<Rightarrow> (Inr x, s'))"

text \<open>\<open>promise.catch(() => dflt)\<close>.\<close>

definition orElse :: "('s, 'a) io \<Rightarrow> 'a \<Rightarrow> ('s, 'a) io" where
  "orElse m dflt = catchE m (\<lambda>error. returnE dflt)"

text \<open>
  The outcome of a call as a value, for a \<open>try\<close> block whose assignments to a local variable
  must survive the exception.
\<close>

definition attempt :: "('s, 'a) io \<Rightarrow> ('s, error + 'a) io" where
  "attempt m = (\<lambda>s. case m s of (r, s') \<Rightarrow> (Inr r, s'))"

text \<open>
  The state of a method is a pair: the mutable object it works on (the fields of \<open>this\<close>, or
  a local accumulator) and the world behind the driver. \<open>liftW\<close> runs a driver call, which
  sees the world only; \<open>modifyL\<close> and \<open>getL\<close> update and read the object; \<open>runLocal\<close> runs a
  block with a fresh local object and returns the object with the block's value.
\<close>

definition liftW :: "('w, 'a) io \<Rightarrow> ('l \<times> 'w, 'a) io" where
  "liftW m = (\<lambda>(l, w). case m w of (r, w') \<Rightarrow> (r, (l, w')))"

definition modifyL :: "('l \<Rightarrow> 'l) \<Rightarrow> ('l \<times> 'w, unit) io" where
  "modifyL f = (\<lambda>(l, w). (Inr (), (f l, w)))"

definition getL :: "('l \<times> 'w, 'l) io" where
  "getL = (\<lambda>(l, w). (Inr l, (l, w)))"

definition runLocal :: "'l \<Rightarrow> ('l \<times> 'w, 'a) io \<Rightarrow> ('w, 'a \<times> 'l) io" where
  "runLocal init m =
     (\<lambda>w. case m (init, w) of
             (Inl e, (l, w')) \<Rightarrow> (Inl e, w')
           | (Inr x, (l, w')) \<Rightarrow> (Inr (x, l), w'))"

text \<open>A \<open>for\<close> loop over an array whose body neither breaks nor returns.\<close>

fun forEach :: "'a list \<Rightarrow> ('a \<Rightarrow> ('s, unit) io) \<Rightarrow> ('s, unit) io" where
  "forEach [] body = returnE ()"
| "forEach (x # xs) body = bindE (body x) (\<lambda>_. forEach xs body)"

text \<open>
  The driver: the remote session the scripts receive. \<open>findAll\<close> is \<open>driver.$$\<close>, \<open>findOne\<close> is
  \<open>driver.$\<close>; the element methods take the element handle first. \<open>isoNow\<close> is
  \<open>new Date().toISOString()\<close>. The world \<open>'w\<close> and the element handles \<open>'e\<close> are arbitrary.
\<close>

record ('w, 'e) driver =
  findAll :: "string \<Rightarrow> ('w, 'e list) io"
  findOne :: "string \<Rightarrow> ('w, 'e) io"
  isDisplayed :: "'e \<Rightarrow> ('w, bool) io"
  getText :: "'e \<Rightarrow> ('w, string) io"
  getTagName :: "'e \<Rightarrow> ('w, string) io"
  getAttribute :: "'e \<Rightarrow> string \<Rightarrow> ('w, jsval) io"
  getRect :: "'e \<Rightarrow> ('w, rect) io"
  click :: "'e \<Rightarrow> ('w, unit) io"
  "back" :: "('w, unit) io"
  saveScreenshot :: "string \<Rightarrow> ('w, unit) io"
  getCurrentActivity :: "('w, string) io"
  getCurrentPackage :: "('w, string) io"
  getPageSource :: "('w, string) io"
  getWindowSize :: "('w, int \<times> int) io"
  isoNow :: "'w \<Rightarrow> string"

section \<open>The element finder\<close>

text \<open>\<open>ElementFinder.getElementInfo(element)\<close>.\<close>

definition getElementInfo :: "('w, 'e) driver \<Rightarrow> 'e \<Rightarrow> ('w, info) io" where
  "getElementInfo d element =
     catchE
       (bindE (orElse (getText d element) '''') (\<lambda>text.
        bindE (orElse (getAttribute d element ''class'') (JStr '''')) (\<lambda>className.
        bindE (orElse (getAttribute d element ''resource-id'') (JStr '''')) (\<lambda>resourceId.
        bindE (orElse (getAttribute d element ''content-desc'') (JStr '''')) (\<lambda>contentDesc.
        bindE (orElse (getAttribute d element ''clickable'') (JStr ''false'')) (\<lambda>clickable.
        bindE (orElse (getAttribute d element ''enabled'') (JStr ''true'')) (\<lambda>enabled.
        bindE (orElse (getRect d element) EmptyObject) (\<lambda>bounds.
        returnE \<lparr>text = trim text,
                 className = className,
                 resourceId = resourceId,
                 contentDesc = contentDesc,
                 clickable = (clickable = JStr ''true''),
                 enabled = (enabled = JStr ''true''),
                 bounds = bounds,
                 selectors = generateSelectors text className resourceId contentDesc,
                 inputType = None,
                 checked = None\<rparr>))))))))
       (\<lambda>error.
        returnE \<lparr>text = '''',
                 className = JStr '''',
                 resourceId = JStr '''',
                 contentDesc = JStr '''',
                 clickable = False,
                 enabled = True,
                 bounds = EmptyObject,
                 selectors = [],
                 inputType = None,
                 checked = None\<rparr>)"

text \<open>\<open>this.foundElements\<close> of the element finder.\<close>

record foundElements =
  buttons :: "info list"
  inputs :: "info list"
  texts :: "info list"
  images :: "info list"
  lists' :: "info list"
  checkboxes :: "info list"
  radioButtons :: "info list"
  switches :: "info list"
  sliders :: "info list"
  tabs :: "info list"
  menus :: "info list"
  custom :: "info list"

text \<open>The constructor's initial value of \<open>this.foundElements\<close>.\<close>

definition initialFoundElements :: foundElements where
  "initialFoundElements =
     \<lparr>buttons = [], inputs = [], texts = [], images = [], lists' = [], checkboxes = [],
      radioButtons = [], switches = [], sliders = [], tabs = [], menus = [], custom = []\<rparr>"

text \<open>\<open>ElementFinder.findButtons()\<close>: the query and the loop over its results are inside the \<open>try\<close>.\<close>

definition findButtons :: "('w, 'e) driver \<Rightarrow> (foundElements \<times> 'w, unit) io" where
  "findButtons d =
     forEach [''//android.widget.Button'',
              ''//*[@clickable=\"true\" and @text]'',
              ''//*[contains(@resource-id, \"button\")]'',
              ''//*[contains(@resource-id, \"btn\")]'']
       (\<lambda>selector.
          catchE
            (bindE (liftW (findAll d selector)) (\<lambda>elements.
             forEach elements (\<lambda>element.
               bindE (liftW (isDisplayed d element)) (\<lambda>displayed.
               if displayed
               then bindE (liftW (getElementInfo d element)) (\<lambda>info.
                    modifyL (\<lambda>fe. fe\<lparr>buttons := pushUnlessDuplicate (buttons fe) info\<rparr>))
               else returnE ()))))
            (\<lambda>error. returnE ()))"

text \<open>\<open>ElementFinder.findInputFields()\<close>.\<close>

definition findInputFields :: "('w, 'e) driver \<Rightarrow> (foundElements \<times> 'w, unit) io" where
  "findInputFields d =
     forEach [''//android.widget.EditText'',
              ''//*[contains(@resource-id, \"edit\")]'',
              ''//*[contains(@resource-id, \"input\")]'']
       (\<lambda>selector.
          catchE
            (bindE (liftW (findAll d selector)) (\<lambda>elements.
             forEach elements (\<lambda>element.
               bindE (liftW (isDisplayed d element)) (\<lambda>displayed.
               if displayed
               then bindE (liftW (getElementInfo d element)) (\<lambda>info.
                    bindE (liftW (orElse (getAttribute d element ''android:inputType'') (JStr ''text''))) (\<lambda>ty.
                    modifyL (\<lambda>fe. fe\<lparr>inputs := pushUnlessDuplicate (inputs fe) (info\<lparr>inputType := Some ty\<rparr>)\<rparr>)))
               else returnE ()))))
            (\<lambda>error. returnE ()))"

text \<open>
  \<open>ElementFinder.findTextElements()\<close>: the query is the first statement of the method, before
  the loop; the \<open>try\<close> is inside the loop, around one element.
\<close>

definition findTextElements :: "('w, 'e) driver \<Rightarrow> (foundElements \<times> 'w, unit) io" where
  "findTextElements d =
     bindE (liftW (findAll d ''//android.widget.TextView'')) (\<lambda>elements.
     forEach (take 20 elements) (\<lambda>element.
       catchE
         (bindE (liftW (isDisplayed d element)) (\<lambda>displayed.
          if displayed
          then bindE (liftW (getElementInfo d element)) (\<lambda>info.
               if text info \<noteq> [] \<and> trim (text info) \<noteq> [] \<and> length (text info) > 0
               then modifyL (\<lambda>fe. fe\<lparr>texts := pushUnlessDuplicate (texts fe) info\<rparr>)
               else returnE ())
          else returnE ()))
         (\<lambda>error. returnE ())))"

text \<open>\<open>ElementFinder.findImageElements()\<close>.\<close>

definition findImageElements :: "('w, 'e) driver \<Rightarrow> (foundElements \<times> 'w, unit) io" where
  "findImageElements d =
     forEach [''//android.widget.ImageView'',
              ''//android.widget.ImageButton'']
       (\<lambda>selector.
          catchE
            (bindE (liftW (findAll d selector)) (\<lambda>elements.
             forEach elements (\<lambda>element.
               bindE (liftW (isDisplayed d element)) (\<lambda>displayed.
               if displayed
               then bindE (liftW (getElementInfo d element)) (\<lambda>info.
                    modifyL (\<lambda>fe. fe\<lparr>images := pushUnlessDuplicate (images fe) info\<rparr>))
               else returnE ()))))
            (\<lambda>error. returnE ()))"

text \<open>\<open>ElementFinder.findListElements()\<close>.\<close>

definition findListElements :: "('w, 'e) driver \<Rightarrow> (foundElements \<times> 'w, unit) io" where
  "findListElements d =
     forEach [''//android.widget.ListView'',
              ''//android.widget.RecyclerView'',
              ''//androidx.recyclerview.widget.RecyclerView'']
       (\<lambda>selector.
          catchE
            (bindE (liftW (findAll d selector)) (\<lambda>elements.
             forEach elements (\<lambda>element.
               bindE (liftW (isDisplayed d element)) (\<lambda>displayed.
               if displayed
               then bindE (liftW (getElementInfo d element)) (\<lambda>info.
                    modifyL (\<lambda>fe. fe\<lparr>lists' := pushUnlessDuplicate (lists' fe) info\<rparr>))
               else returnE ()))))
            (\<lambda>error. returnE ()))"

text \<open>\<open>ElementFinder.findCheckboxes()\<close>.\<close>

definition findCheckboxes :: "('w, 'e) driver \<Rightarrow> (foundElements \<times> 'w, unit) io" where
  "findCheckboxes d =
     forEach [''//android.widget.CheckBox'',
              ''//*[@checkable=\"true\"]'']
       (\<lambda>selector.
          catchE
            (bindE (liftW (findAll d selector)) (\<lambda>elements.
             forEach elements (\<lambda>element.
               bindE (liftW (isDisplayed d element)) (\<lambda>displayed.
               if displayed
               then bindE (liftW (getElementInfo d element)) (\<lambda>info.
                    bindE (liftW (orElse (getAttribute d element ''checked'') (JStr ''false''))) (\<lambda>ch.
                    modifyL (\<lambda>fe. fe\<lparr>checkboxes := pushUnlessDuplicate (checkboxes fe) (info\<lparr>checked := Some ch\<rparr>)\<rparr>)))
               else returnE ()))))
            (\<lambda>error. returnE ()))"

text \<open>
  \<open>ElementFinder.findCustomElements()\<close>. \<open>className.startsWith\<close> throws a TypeError when the
  class attribute is \<open>null\<close>; \<open>&&\<close> evaluates it only when \<open>resourceId\<close> is truthy.
\<close>

definition findCustomElements :: "('w, 'e) driver \<Rightarrow> (foundElements \<times> 'w, unit) io" where
  "findCustomElements d =
     catchE
       (bindE (liftW (findAll d ''//*[@resource-id]'')) (\<lambda>allElements.
        forEach (take 15 allElements) (\<lambda>element.
          catchE
            (bindE (liftW (isDisplayed d element)) (\<lambda>displayed.
             if displayed
             then bindE (liftW (getAttribute d element ''resource-id'')) (\<lambda>resourceId.
                  bindE (liftW (getAttribute d element ''class'')) (\<lambda>className.
                  if truthy resourceId
                  then (case className of
                          JNull \<Rightarrow> throwE (Error ''TypeError'')
                        | JStr cn \<Rightarrow>
                            if \<not> startsWith cn ''android.widget.'' \<and> \<not> startsWith cn ''android.view.''
                            then bindE (liftW (getElementInfo d element)) (\<lambda>info.
                                 modifyL (\<lambda>fe. fe\<lparr>custom := pushUnlessDuplicate (custom fe) info\<rparr>))
                            else returnE ())
                  else returnE ()))
             else returnE ()))
            (\<lambda>error. returnE ()))))
       (\<lambda>error. returnE ())"

text \<open>\<open>ElementFinder.findAllElementTypes()\<close>: seven awaited calls, no \<open>try\<close> around any.\<close>

definition findAllElementTypes :: "('w, 'e) driver \<Rightarrow> (foundElements \<times> 'w, foundElements) io" where
  "findAllElementTypes d =
     bindE (findButtons d) (\<lambda>_.
     bindE (findInputFields d) (\<lambda>_.
     bindE (findTextElements d) (\<lambda>_.
     bindE (findImageElements d) (\<lambda>_.
     bindE (findListElements d) (\<lambda>_.
     bindE (findCheckboxes d) (\<lambda>_.
     bindE (findCustomElements d) (\<lambda>_.
     getL)))))))"

section \<open>The deep inspector\<close>

text \<open>
  The objects \<open>discoverElementsOnCurrentScreen\<close> pushes, one record per list of \<open>elements\<close>;
  the prefix of a field stands for the list (\<open>ce_text\<close> is the property \<open>text\<close> of an entry of
  \<open>elements.clickable\<close>).
\<close>

record clickableElement =
  ce_index :: nat
  ce_text :: string
  ce_tagName :: string
  ce_contentDesc :: jsval
  ce_resourceId :: jsval
  ce_bounds :: rect
  ce_selectors :: "string list"

record inputElement =
  ie_index :: nat
  ie_text :: string
  ie_hint :: jsval
  ie_resourceId :: jsval
  ie_bounds :: rect
  ie_selectors :: "string list"

record textElement =
  te_index :: nat
  te_text :: string
  te_resourceId :: jsval
  te_bounds :: rect

record scrollableElement =
  se_index :: nat
  se_tagName :: string
  se_resourceId :: jsval
  se_bounds :: rect

text \<open>The local object \<open>elements\<close>; nothing is ever pushed on its \<open>buttons\<close>.\<close>

record screenElements =
  els_clickable :: "clickableElement list"
  els_inputs :: "inputElement list"
  els_texts :: "textElement list"
  els_buttons :: "clickableElement list"
  els_scrollable :: "scrollableElement list"

definition emptyElements :: screenElements where
  "emptyElements =
     \<lparr>els_clickable = [], els_inputs = [], els_texts = [], els_buttons = [], els_scrollable = []\<rparr>"

text \<open>The object returned by \<open>getCurrentScreenInfo\<close>; \<open>packageName\<close> is its property \<open>package\<close>.\<close>

record screenInfo =
  activity :: string
  packageName :: string
  pageSource :: string
  windowSize :: "int \<times> int"
  timestamp :: string

text \<open>The object returned by \<open>discoverElementsOnCurrentScreen\<close>; \<open>screenshot\<close> is a file name or \<open>null\<close>.\<close>

record screen =
  screenInfo :: screenInfo
  elements :: screenElements
  screenshot :: "string option"

text \<open>\<open>s.replace(/[:.]/g, '-')\<close> and \<open>s.split('.').pop()\<close>.\<close>

definition replaceColonDot :: "string \<Rightarrow> string" where
  "replaceColonDot s = map (\<lambda>c. if c = CHR '':'' \<or> c = CHR ''.'' then CHR ''-'' else c) s"

definition lastSegment :: "string \<Rightarrow> string" where
  "lastSegment s = rev (takeWhile (\<lambda>c. c \<noteq> CHR ''.'') (rev s))"

text \<open>\<open>UIElementDiscovery.takeScreenshot(name)\<close>.\<close>

definition takeScreenshot :: "('w, 'e) driver \<Rightarrow> string \<Rightarrow> ('w, string option) io" where
  "takeScreenshot d name =
     catchE
       (bindE (\<lambda>w. (Inr (replaceColonDot (isoNow d w)), w)) (\<lambda>timestamp.
        bindE (returnE (name @ ''_'' @ timestamp @ ''.png'')) (\<lambda>filename.
        bindE (saveScreenshot d (''./screenshots/'' @ filename)) (\<lambda>_.
        returnE (Some filename)))))
       (\<lambda>error. returnE None)"

text \<open>\<open>UIElementDiscovery.getCurrentScreenInfo()\<close>.\<close>

definition getCurrentScreenInfo :: "('w, 'e) driver \<Rightarrow> ('w, screenInfo option) io" where
  "getCurrentScreenInfo d =
     catchE
       (bindE (getCurrentActivity d) (\<lambda>activity.
        bindE (getCurrentPackage d) (\<lambda>packageName.
        bindE (getPageSource d) (\<lambda>pageSource.
        bindE (getWindowSize d) (\<lambda>windowSize.
        bindE (\<lambda>w. (Inr (isoNow d w), w)) (\<lambda>timestamp.
        returnE (Some \<lparr>activity = activity,
                       packageName = packageName,
                       pageSource = pageSource,
                       windowSize = windowSize,
                       timestamp = timestamp\<rparr>)))))))
       (\<lambda>error. returnE None)"

text \<open>
  The four parts of the \<open>try\<close> block of \<open>discoverElementsOnCurrentScreen\<close>, in the order of the
  source; each works on the local object \<open>elements\<close>. First the clickable elements.
\<close>

definition discoverClickable :: "('w, 'e) driver \<Rightarrow> (screenElements \<times> 'w, unit) io" where
  "discoverClickable d =
     bindE (liftW (findAll d ''//*[@clickable=\"true\"]'')) (\<lambda>clickableElements.
     forEach (enumerate 0 clickableElements) (\<lambda>(i, element).
       catchE
         (bindE (liftW (isDisplayed d element)) (\<lambda>displayed.
          if displayed
          then bindE (liftW (orElse (getText d element) '''')) (\<lambda>text.
               bindE (liftW (orElse (getTagName d element) '''')) (\<lambda>tagName.
               bindE (liftW (orElse (getRect d element) EmptyObject)) (\<lambda>bounds.
               bindE (liftW (orElse (getAttribute d element ''content-desc'') (JStr ''''))) (\<lambda>contentDesc.
               bindE (liftW (orElse (getAttribute d element ''resource-id'') (JStr ''''))) (\<lambda>resourceId.
               modifyL (\<lambda>els. els\<lparr>els_clickable := els_clickable els @
                 [\<lparr>ce_index = i,
                   ce_text = trim text,
                   ce_tagName = tagName,
                   ce_contentDesc = contentDesc,
                   ce_resourceId = resourceId,
                   ce_bounds = bounds,
                   ce_selectors = generateSelector tagName text contentDesc resourceId\<rparr>]\<rparr>))))))
          else returnE ()))
         (\<lambda>error. returnE ())))"

text \<open>The input elements.\<close>

definition discoverInputs :: "('w, 'e) driver \<Rightarrow> (screenElements \<times> 'w, unit) io" where
  "discoverInputs d =
     bindE (liftW (findAll d ''//android.widget.EditText'')) (\<lambda>inputElements.
     forEach (enumerate 0 inputElements) (\<lambda>(i, element).
       catchE
         (bindE (liftW (isDisplayed d element)) (\<lambda>displayed.
          if displayed
          then bindE (liftW (orElse (getText d element) '''')) (\<lambda>text.
               bindE (liftW (orElse (getAttribute d element ''hint'') (JStr ''''))) (\<lambda>hint.
               bindE (liftW (orElse (getAttribute d element ''resource-id'') (JStr ''''))) (\<lambda>resourceId.
               bindE (liftW (orElse (getRect d element) EmptyObject)) (\<lambda>bounds.
               modifyL (\<lambda>els. els\<lparr>els_inputs := els_inputs els @
                 [\<lparr>ie_index = i,
                   ie_text = trim text,
                   ie_hint = hint,
                   ie_resourceId = resourceId,
                   ie_bounds = bounds,
                   ie_selectors = generateInputSelector hint resourceId i\<rparr>]\<rparr>)))))
          else returnE ()))
         (\<lambda>error. returnE ())))"

text \<open>The text elements, the first twenty results of the query at most.\<close>

definition discoverTexts :: "('w, 'e) driver \<Rightarrow> (screenElements \<times> 'w, unit) io" where
  "discoverTexts d =
     bindE (liftW (findAll d ''//android.widget.TextView'')) (\<lambda>textElements.
     forEach (enumerate 0 (take 20 textElements)) (\<lambda>(i, element).
       catchE
         (bindE (liftW (isDisplayed d element)) (\<lambda>displayed.
          if displayed
          then bindE (liftW (orElse (getText d element) '''')) (\<lambda>text.
               bindE (liftW (orElse (getAttribute d element ''resource-id'') (JStr ''''))) (\<lambda>resourceId.
               bindE (liftW (orElse (getRect d element) EmptyObject)) (\<lambda>bounds.
               if text \<noteq> [] \<and> trim text \<noteq> [] \<and> length text > 0
               then modifyL (\<lambda>els. els\<lparr>els_texts := els_texts els @
                      [\<lparr>te_index = i,
                        te_text = trim text,
                        te_resourceId = resourceId,
                        te_bounds = bounds\<rparr>]\<rparr>)
               else returnE ())))
          else returnE ()))
         (\<lambda>error. returnE ())))"

text \<open>The scrollable elements.\<close>

definition discoverScrollable :: "('w, 'e) driver \<Rightarrow> (screenElements \<times> 'w, unit) io" where
  "discoverScrollable d =
     bindE (liftW (findAll d ''//*[@scrollable=\"true\"]'')) (\<lambda>scrollableElements.
     forEach (enumerate 0 scrollableElements) (\<lambda>(i, element).
       catchE
         (bindE (liftW (isDisplayed d element)) (\<lambda>displayed.
          if displayed
          then bindE (liftW (orElse (getTagName d element) '''')) (\<lambda>tagName.
               bindE (liftW (orElse (getAttribute d element ''resource-id'') (JStr ''''))) (\<lambda>resourceId.
               bindE (liftW (orElse (getRect d element) EmptyObject)) (\<lambda>bounds.
               modifyL (\<lambda>els. els\<lparr>els_scrollable := els_scrollable els @
                 [\<lparr>se_index = i,
                   se_tagName = tagName,
                   se_resourceId = resourceId,
                   se_bounds = bounds\<rparr>]\<rparr>))))
          else returnE ()))
         (\<lambda>error. returnE ())))"

text \<open>
  The \<open>try\<close> block as a whole, with its \<open>catch\<close>: a query that throws ends the block, and the
  lists keep what was pushed before.
\<close>

definition discoverAllKinds :: "('w, 'e) driver \<Rightarrow> (screenElements \<times> 'w, unit) io" where
  "discoverAllKinds d =
     catchE
       (bindE (discoverClickable d) (\<lambda>_.
        bindE (discoverInputs d) (\<lambda>_.
        bindE (discoverTexts d) (\<lambda>_.
        discoverScrollable d))))
       (\<lambda>error. returnE ())"

text \<open>
  \<open>UIElementDiscovery.discoverElementsOnCurrentScreen()\<close>. The returned object literal
  evaluates \<open>takeScreenshot\<close> last.
\<close>

definition discoverElementsOnCurrentScreen :: "('w, 'e) driver \<Rightarrow> ('w, screen option) io" where
  "discoverElementsOnCurrentScreen d =
     bindE (getCurrentScreenInfo d) (\<lambda>info.
     case info of
       None \<Rightarrow> returnE None
     | Some si \<Rightarrow>
         bindE (runLocal emptyElements (discoverAllKinds d)) (\<lambda>(u, els).
         bindE (takeScreenshot d (''screen_'' @ lastSegment (activity si))) (\<lambda>shot.
         returnE (Some \<lparr>screenInfo = si, elements = els, screenshot = shot\<rparr>))))"

text \<open>
  The loop over the XPath selectors inside \<open>exploreClickableElements\<close>. \<open>targetElement\<close> is
  assigned as soon as \<open>driver.$\<close> returns, before \<open>isDisplayed\<close> is asked; the loop breaks on
  the first displayed element, and an exception goes on to the next selector.
\<close>

fun tryXPathSelectors ::
  "('w, 'e) driver \<Rightarrow> string list \<Rightarrow> 'e option \<Rightarrow> ('w, 'e option) io" where
  "tryXPathSelectors d [] targetElement = returnE targetElement"
| "tryXPathSelectors d (selector # rest) targetElement =
     bindE (attempt (findOne d selector)) (\<lambda>found.
     case found of
       Inl e \<Rightarrow> tryXPathSelectors d rest targetElement
     | Inr t \<Rightarrow>
         bindE (attempt (isDisplayed d t)) (\<lambda>displayed.
         case displayed of
           Inr True \<Rightarrow> returnE (Some t)
         | _ \<Rightarrow> tryXPathSelectors d rest (Some t)))"

text \<open>
  Locating the element: the XPath selectors first, then the fallback on the resource id, the
  text or the content description, tried only while \<open>targetElement\<close> is still \<open>null\<close>.
\<close>

definition locateElement :: "('w, 'e) driver \<Rightarrow> clickableElement \<Rightarrow> ('w, 'e option) io" where
  "locateElement d element =
     bindE (if ce_selectors element \<noteq> []
            then tryXPathSelectors d (filter (\<lambda>s. startsWith s ''//'') (ce_selectors element)) None
            else returnE None) (\<lambda>targetElement.
     case targetElement of
       Some t \<Rightarrow> returnE (Some t)
     | None \<Rightarrow>
         if truthy (ce_resourceId element)
         then bindE (findOne d (''//*[@resource-id=\"'' @ interp (ce_resourceId element) @ ''\"]''))
                (\<lambda>t. returnE (Some t))
         else if ce_text element \<noteq> []
         then bindE (findOne d (''//*[@text=\"'' @ ce_text element @ ''\"]''))
                (\<lambda>t. returnE (Some t))
         else if truthy (ce_contentDesc element)
         then bindE (findOne d (''//*[@content-desc=\"'' @ interp (ce_contentDesc element) @ ''\"]''))
                (\<lambda>t. returnE (Some t))
         else returnE None)"

text \<open>
  The inner \<open>try\<close> of the loop body: click, discover the new screen, push it on
  \<open>this.discoveredScreens\<close>, go back. The two waits take time and do nothing else.
\<close>

definition clickInteraction :: "('w, 'e) driver \<Rightarrow> 'e \<Rightarrow> (screen list \<times> 'w, unit) io" where
  "clickInteraction d targetElement =
     catchE
       (bindE (liftW (isDisplayed d targetElement)) (\<lambda>displayed.
        if displayed
        then bindE (liftW (click d targetElement)) (\<lambda>_.
             bindE (liftW (discoverElementsOnCurrentScreen d)) (\<lambda>newScreen.
             bindE (case newScreen of
                      Some ns \<Rightarrow> modifyL (\<lambda>discoveredScreens. discoveredScreens @ [ns])
                    | None \<Rightarrow> returnE ()) (\<lambda>_.
             liftW (back d))))
        else returnE ()))
       (\<lambda>clickError. returnE ())"

text \<open>The body of the loop of \<open>exploreClickableElements\<close> for one descriptor.\<close>

definition exploreElement ::
  "('w, 'e) driver \<Rightarrow> clickableElement \<Rightarrow> (screen list \<times> 'w, unit) io" where
  "exploreElement d element =
     (if ce_text element \<noteq> [] \<or> truthy (ce_contentDesc element)
      then catchE
             (bindE (liftW (locateElement d element)) (\<lambda>targetElement.
              case targetElement of
                Some t \<Rightarrow> clickInteraction d t
              | None \<Rightarrow> returnE ()))
             (\<lambda>error. returnE ())
      else returnE ())"

text \<open>
  \<open>UIElementDiscovery.exploreClickableElements()\<close>; the state is \<open>this.discoveredScreens\<close> and
  the world. The loop runs over the first \<open>Math.min(clickableElements.length, 5)\<close> entries.
\<close>

definition exploreClickableElements :: "('w, 'e) driver \<Rightarrow> (screen list \<times> 'w, unit) io" where
  "exploreClickableElements d =
     bindE (liftW (discoverElementsOnCurrentScreen d)) (\<lambda>mainScreen.
     case mainScreen of
       None \<Rightarrow> returnE ()
     | Some ms \<Rightarrow>
         bindE (modifyL (\<lambda>discoveredScreens. discoveredScreens @ [ms])) (\<lambda>_.
         forEach (take 5 (els_clickable (elements ms))) (exploreElement d)))"

section \<open>The calls a run sends to the driver\<close>

text \<open>
  What a run does to the device is the sequence of calls it sends. \<open>traced d\<close> is the driver
  \<open>d\<close> with a log beside its world: every call answers as \<open>d\<close> does and appends itself to the
  log. It is a driver like any other, so whatever holds for every driver holds for it.
\<close>

datatype 'e call =
    CFindAll string
  | CFindOne string
  | CIsDisplayed 'e
  | CGetText 'e
  | CGetTagName 'e
  | CGetAttribute 'e string
  | CGetRect 'e
  | CClick 'e
  | CBack
  | CSaveScreenshot string
  | CGetCurrentActivity
  | CGetCurrentPackage
  | CGetPageSource
  | CGetWindowSize

definition logged :: "'e call \<Rightarrow> ('w, 'a) io \<Rightarrow> ('w \<times> 'e call list, 'a) io" where
  "logged c m = (\<lambda>(w, tr). case m w of (r, w') \<Rightarrow> (r, (w', tr @ [c])))"

definition traced :: "('w, 'e) driver \<Rightarrow> ('w \<times> 'e call list, 'e) driver" where
  "traced d =
     \<lparr>findAll = (\<lambda>s. logged (CFindAll s) (findAll d s)),
      findOne = (\<lambda>s. logged (CFindOne s) (findOne d s)),
      isDisplayed = (\<lambda>e. logged (CIsDisplayed e) (isDisplayed d e)),
      getText = (\<lambda>e. logged (CGetText e) (getText d e)),
      getTagName = (\<lambda>e. logged (CGetTagName e) (getTagName d e)),
      getAttribute = (\<lambda>e a. logged (CGetAttribute e a) (getAttribute d e a)),
      getRect = (\<lambda>e. logged (CGetRect e) (getRect d e)),
      click = (\<lambda>e. logged (CClick e) (click d e)),
      back = logged CBack (back d),
      saveScreenshot = (\<lambda>f. logged (CSaveScreenshot f) (saveScreenshot d f)),
      getCurrentActivity = logged CGetCurrentActivity (getCurrentActivity d),
      getCurrentPackage = logged CGetCurrentPackage (getCurrentPackage d),
      getPageSource = logged CGetPageSource (getPageSource d),
      getWindowSize = logged CGetWindowSize (getWindowSize d),
      isoNow = (\<lambda>(w, tr). isoNow d w)\<rparr>"

text \<open>The clicks of a log, and the log of a state of the deep inspector or of the finder.\<close>

fun isClick :: "'e call \<Rightarrow> bool" where
  "isClick (CClick e) = True"
| "isClick _ = False"

definition clicks :: "'e call list \<Rightarrow> 'e call list" where
  "clicks tr = filter isClick tr"

definition logOf :: "'l \<times> 'w \<times> 'e call list \<Rightarrow> 'e call list" where
  "logOf s = snd (snd s)"

section \<open>Properties of computations\<close>

text \<open>
  \<open>nothrow m\<close>: from every state, \<open>m\<close> resolves to a value. \<open>preserves I m\<close>: \<open>m\<close> keeps the
  property \<open>I\<close> of the state, whether it throws or not. \<open>adds f n m\<close>: \<open>m\<close> raises the count
  \<open>f\<close> of the state by \<open>n\<close> at most. \<open>onWorld\<close> and \<open>onLocal\<close> read a property of the world or
  of the object off a pair state.
\<close>

definition nothrow :: "('s, 'a) io \<Rightarrow> bool" where
  "nothrow m = (\<forall>s. \<exists>x. fst (m s) = Inr x)"

definition preserves :: "('s \<Rightarrow> bool) \<Rightarrow> ('s, 'a) io \<Rightarrow> bool" where
  "preserves I m = (\<forall>s. I s \<longrightarrow> I (snd (m s)))"

definition adds :: "('s \<Rightarrow> nat) \<Rightarrow> nat \<Rightarrow> ('s, 'a) io \<Rightarrow> bool" where
  "adds f n m = (\<forall>s. f (snd (m s)) \<le> f s + n)"

definition onWorld :: "('w \<Rightarrow> 'b) \<Rightarrow> 'l \<times> 'w \<Rightarrow> 'b" where
  "onWorld J s = J (snd s)"

definition onLocal :: "('l \<Rightarrow> 'b) \<Rightarrow> 'l \<times> 'w \<Rightarrow> 'b" where
  "onLocal P s = P (fst s)"

text \<open>The log of a traced world has the clicks \<open>cs\<close>; the number of clicks of a traced world.\<close>

definition clicksAre :: "'e call list \<Rightarrow> 'w \<times> 'e call list \<Rightarrow> bool" where
  "clicksAre cs s = (clicks (snd s) = cs)"

definition nclicks :: "'w \<times> 'e call list \<Rightarrow> nat" where
  "nclicks s = length (clicks (snd s))"

text \<open>What every entry of \<open>elements.inputs\<close> satisfies: its last selector is the positional one.\<close>

definition inputOk :: "inputElement \<Rightarrow> bool" where
  "inputOk x = (ie_selectors x \<noteq> []
                \<and> last (ie_selectors x) = positional (ie_index x + 1)
                \<and> ie_selectors x = generateInputSelector (ie_hint x) (ie_resourceId x) (ie_index x))"

definition inputsOk :: "screenElements \<Rightarrow> bool" where
  "inputsOk els = list_all inputOk (els_inputs els)"

text \<open>
  The condition under which the loop of \<open>exploreClickableElements\<close> tries a descriptor:
  \<open>element.text || element.contentDesc\<close>.
\<close>

definition hasLabel :: "clickableElement \<Rightarrow> bool" where
  "hasLabel element = (ce_text element \<noteq> [] \<or> truthy (ce_contentDesc element))"

section \<open>Example drivers\<close>

text \<open>Every getter of the element \<open>e\<close> throws, in every world.\<close>

definition gettersFail :: "('w, 'e) driver \<Rightarrow> 'e \<Rightarrow> bool" where
  "gettersFail d e =
     ((\<forall>w. \<exists>err w'. getText d e w = (Inl err, w'))
      \<and> (\<forall>a w. \<exists>err w'. getAttribute d e a w = (Inl err, w'))
      \<and> (\<forall>w. \<exists>err w'. getRect d e w = (Inl err, w')))"

text \<open>A session in which every call throws: a mock node whose getters all fail.\<close>

definition failingDriver :: "(unit, nat) driver" where
  "failingDriver =
     \<lparr>findAll = (\<lambda>s. throwE (Error ''stale'')),
      findOne = (\<lambda>s. throwE (Error ''stale'')),
      isDisplayed = (\<lambda>e. throwE (Error ''stale'')),
      getText = (\<lambda>e. throwE (Error ''stale'')),
      getTagName = (\<lambda>e. throwE (Error ''stale'')),
      getAttribute = (\<lambda>e a. throwE (Error ''stale'')),
      getRect = (\<lambda>e. throwE (Error ''stale'')),
      click = (\<lambda>e. throwE (Error ''stale'')),
      back = throwE (Error ''stale''),
      saveScreenshot = (\<lambda>f. throwE (Error ''stale'')),
      getCurrentActivity = throwE (Error ''stale''),
      getCurrentPackage = throwE (Error ''stale''),
      getPageSource = throwE (Error ''stale''),
      getWindowSize = throwE (Error ''stale''),
      isoNow = (\<lambda>w. ''T'')\<rparr>"

text \<open>
  A session whose query for text views throws and whose other queries find nothing: an
  automation layer that rejects one locator.
\<close>

definition textQueryFails :: "(unit, nat) driver" where
  "textQueryFails =
     \<lparr>findAll = (\<lambda>s. if s = ''//android.widget.TextView''
                       then throwE (Error ''unsupported locator'') else returnE []),
      findOne = (\<lambda>s. returnE 0),
      isDisplayed = (\<lambda>e. returnE True),
      getText = (\<lambda>e. returnE ''''),
      getTagName = (\<lambda>e. returnE ''''),
      getAttribute = (\<lambda>e a. returnE JNull),
      getRect = (\<lambda>e. returnE EmptyObject),
      click = (\<lambda>e. returnE ()),
      back = returnE (),
      saveScreenshot = (\<lambda>f. returnE ()),
      getCurrentActivity = returnE ''.Main'',
      getCurrentPackage = returnE ''app'',
      getPageSource = returnE '''',
      getWindowSize = returnE (0, 0),
      isoNow = (\<lambda>w. ''T'')\<rparr>"

text \<open>
  A small application. The world is the number of the screen shown: screen 0 has one
  clickable element, \<open>Dome\<close>, and one text field without hint or resource id; a click leads
  to screen 1 with two clickable elements; \<open>back\<close> returns to screen 0. Attribute reads
  throw, and so does the screenshot.
\<close>

definition demoDriver :: "(nat, nat) driver" where
  "demoDriver =
     \<lparr>findAll = (\<lambda>s w. (Inr (if s = ''//*[@clickable=\"true\"]'' then (if w = 0 then [1] else [2, 3])
                              else if s = ''//android.widget.EditText'' then (if w = 0 then [4] else [])
                              else []), w)),
      findOne = (\<lambda>s w. (Inr 1, w)),
      isDisplayed = (\<lambda>e w. (Inr True, w)),
      getText = (\<lambda>e w. (Inr (if e = 1 then ''Dome'' else if e = 2 then ''Harvesting''
                              else if e = 3 then ''Media Moisture'' else ''''), w)),
      getTagName = (\<lambda>e w. (Inr ''View'', w)),
      getAttribute = (\<lambda>e a w. (Inl (Error ''stale''), w)),
      getRect = (\<lambda>e w. (Inr (Rect 0 0 10 10), w)),
      click = (\<lambda>e w. (Inr (), 1)),
      back = (\<lambda>w. (Inr (), 0)),
      saveScreenshot = (\<lambda>f w. (Inl (Error ''EACCES''), w)),
      getCurrentActivity = (\<lambda>w. (Inr (if w = 0 then ''.Main'' else ''.Dome''), w)),
      getCurrentPackage = (\<lambda>w. (Inr ''app'', w)),
      getPageSource = (\<lambda>w. (Inr '''', w)),
      getWindowSize = (\<lambda>w. (Inr (1080, 1920), w)),
      isoNow = (\<lambda>w. ''T'')\<rparr>"

text \<open>What the discovery pass returns for screen 0 of the small application.\<close>

definition demoMainScreen :: screen where
  "demoMainScreen =
     \<lparr>screenInfo = \<lparr>activity = ''.Main'', packageName = ''app'', pageSource = '''',
                    windowSize = (1080, 1920), timestamp = ''T''\<rparr>,
      elements =
        \<lparr>els_clickable =
           [\<lparr>ce_index = 0, ce_text = ''Dome'', ce_tagName = ''View'',
             ce_contentDesc = JStr '''', ce_resourceId = JStr '''',
             ce_bounds = Rect 0 0 10 10,
             ce_selectors = [''android=new UiSelector().text(\"Dome\")'', ''//*[@text=\"Dome\"]'']\<rparr>],
         els_inputs =
           [\<lparr>ie_index = 0, ie_text = '''', ie_hint = JStr '''',
             ie_resourceId = JStr '''', ie_bounds = Rect 0 0 10 10,
             ie_selectors = [''(//android.widget.EditText)[1]'']\<rparr>],
         els_texts = [], els_buttons = [], els_scrollable = []\<rparr>,
      screenshot = None\<rparr>"

text \<open>A clickable descriptor with a resource id and neither text nor content description.\<close>

definition unlabelled :: clickableElement where
  "unlabelled =
     \<lparr>ce_index = 0, ce_text = '''', ce_tagName = ''View'', ce_contentDesc = JStr '''',
      ce_resourceId = JStr ''id/x'', ce_bounds = EmptyObject,
      ce_selectors = [''android=new UiSelector().resourceId(\"id/x\")'', ''//*[@resource-id=\"id/x\"]'']\<rparr>"

text \<open>Two descriptors of the element finder that differ in their bounds only.\<close>

definition okButton :: info where
  "okButton =
     \<lparr>text = ''OK'', className = JStr ''android.widget.Button'', resourceId = JStr ''id/ok'',
      contentDesc = JStr '''', clickable = True, enabled = True, bounds = Rect 0 0 10 10,
      selectors = generateSelectors ''OK'' (JStr ''android.widget.Button'') (JStr ''id/ok'') (JStr ''''),
      inputType = None, checked = None\<rparr>"

definition okButtonMoved :: info where
  "okButtonMoved = okButton\<lparr>bounds := Rect 0 40 10 10\<rparr>"

section \<open>Rules for computations\<close>

subsection \<open>Rules for nothrow\<close>

lemma nothrow_returnE: "nothrow (returnE x)"
  by (simp add: nothrow_def returnE_def)

lemma nothrow_bindE: "nothrow m \<Longrightarrow> (\<And>x. nothrow (f x)) \<Longrightarrow> nothrow (bindE m f)"
proof -
  assume m: "nothrow m" and f: "\<And>x. nothrow (f x)"
  show ?thesis
    unfolding nothrow_def
  proof
    fix s
    obtain x s' where ms: "m s = (Inr x, s')"
      using m unfolding nothrow_def by (metis prod.collapse)
    obtain y where "fst (f x s') = Inr y"
      using f unfolding nothrow_def by blast
    then show "\<exists>y. fst (bindE m f s) = Inr y"
      by (simp add: bindE_def ms)
  qed
qed

lemma nothrow_catchE: "(\<And>e. nothrow (h e)) \<Longrightarrow> nothrow (catchE m h)"
  unfolding nothrow_def catchE_def
  by (auto split: prod.splits sum.splits)

lemma nothrow_orElse: "nothrow (orElse m x)"
  unfolding orElse_def by (intro nothrow_catchE nothrow_returnE)

lemma nothrow_attempt: "nothrow (attempt m)"
  by (auto simp: nothrow_def attempt_def split: prod.splits)

lemma nothrow_liftW: "nothrow m \<Longrightarrow> nothrow (liftW m)"
  unfolding nothrow_def liftW_def
  by (auto split: prod.splits) (metis fst_conv)

lemma nothrow_modifyL: "nothrow (modifyL f)"
  by (simp add: nothrow_def modifyL_def split: prod.splits)

lemma nothrow_getL: "nothrow getL"
  by (simp add: nothrow_def getL_def split: prod.splits)

lemma nothrow_runLocal: "nothrow m \<Longrightarrow> nothrow (runLocal i m)"
  unfolding nothrow_def runLocal_def
  by (auto split: prod.splits sum.splits) (metis fst_conv sum.distinct(1))

lemma nothrow_forEach: "(\<And>x. nothrow (body x)) \<Longrightarrow> nothrow (forEach xs body)"
  by (induction xs) (auto intro: nothrow_returnE nothrow_bindE)

lemma nothrowD: "nothrow m \<Longrightarrow> \<exists>x s'. m s = (Inr x, s')"
  unfolding nothrow_def by (metis prod.collapse)

subsection \<open>Rules for preserves\<close>

lemma preserves_returnE: "preserves I (returnE x)"
  by (simp add: preserves_def returnE_def)

lemma preserves_throwE: "preserves I (throwE e)"
  by (simp add: preserves_def throwE_def)

lemma preserves_bindE: "preserves I m \<Longrightarrow> (\<And>x. preserves I (f x)) \<Longrightarrow> preserves I (bindE m f)"
  unfolding preserves_def bindE_def
  by (auto split: prod.splits sum.splits)

lemma preserves_catchE: "preserves I m \<Longrightarrow> (\<And>e. preserves I (h e)) \<Longrightarrow> preserves I (catchE m h)"
  unfolding preserves_def catchE_def
  by (auto split: prod.splits sum.splits)

lemma preserves_orElse: "preserves I m \<Longrightarrow> preserves I (orElse m x)"
  unfolding orElse_def by (intro preserves_catchE preserves_returnE)

lemma preserves_attempt: "preserves I m \<Longrightarrow> preserves I (attempt m)"
  unfolding preserves_def attempt_def
  by (auto split: prod.splits)

lemma preserves_forEach: "(\<And>x. preserves I (body x)) \<Longrightarrow> preserves I (forEach xs body)"
  by (induction xs) (auto intro: preserves_returnE preserves_bindE)

lemma preserves_liftW_world: "preserves J m \<Longrightarrow> preserves (onWorld J) (liftW m)"
  unfolding preserves_def liftW_def onWorld_def
  by (auto split: prod.splits)

lemma preserves_liftW_local: "preserves (onLocal P) (liftW m)"
  unfolding preserves_def liftW_def onLocal_def
  by (auto split: prod.splits)

lemma preserves_modifyL_world: "preserves (onWorld J) (modifyL f)"
  by (auto simp: preserves_def modifyL_def onWorld_def split: prod.splits)

lemma preserves_modifyL_local: "(\<And>l. P l \<Longrightarrow> P (f l)) \<Longrightarrow> preserves (onLocal P) (modifyL f)"
  by (auto simp: preserves_def modifyL_def onLocal_def split: prod.splits)

lemma preserves_getL: "preserves I getL"
  by (auto simp: preserves_def getL_def split: prod.splits)

lemma preserves_runLocal: "preserves (onWorld J) m \<Longrightarrow> preserves J (runLocal i m)"
  unfolding preserves_def runLocal_def onWorld_def
  by (auto split: prod.splits sum.splits) (metis snd_conv)+

subsection \<open>Rules for adds\<close>

lemma adds_returnE: "adds f n (returnE x)"
  by (simp add: adds_def returnE_def)

lemma adds_bindE: "adds f a m \<Longrightarrow> (\<And>x. adds f b (g x)) \<Longrightarrow> adds f (a + b) (bindE m g)"
  unfolding adds_def bindE_def
proof (intro allI)
  fix s
  assume m: "\<forall>s. f (snd (m s)) \<le> f s + a" and g: "\<And>x. \<forall>s. f (snd (g x s)) \<le> f s + b"
  obtain r s' where ms: "m s = (r, s')" by (cases "m s")
  from m have 1: "f s' \<le> f s + a" using ms by (metis snd_conv)
  show "f (snd (case m s of (Inl e, s') \<Rightarrow> (Inl e, s') | (Inr x, s') \<Rightarrow> g x s')) \<le> f s + (a + b)"
  proof (cases r)
    case (Inl e)
    then show ?thesis using ms 1 by simp
  next
    case (Inr x)
    have "f (snd (g x s')) \<le> f s' + b" using g by blast
    then show ?thesis using ms Inr 1 by simp
  qed
qed

lemma adds_catchE: "adds f a m \<Longrightarrow> (\<And>e. adds f b (h e)) \<Longrightarrow> adds f (a + b) (catchE m h)"
  unfolding adds_def catchE_def
proof (intro allI)
  fix s
  assume m: "\<forall>s. f (snd (m s)) \<le> f s + a" and g: "\<And>x. \<forall>s. f (snd (h x s)) \<le> f s + b"
  obtain r s' where ms: "m s = (r, s')" by (cases "m s")
  from m have 1: "f s' \<le> f s + a" using ms by (metis snd_conv)
  show "f (snd (case m s of (Inl e, s') \<Rightarrow> h e s' | (Inr x, s') \<Rightarrow> (Inr x, s'))) \<le> f s + (a + b)"
  proof (cases r)
    case (Inl e)
    have "f (snd (h e s')) \<le> f s' + b" using g by blast
    then show ?thesis using ms Inl 1 by simp
  next
    case (Inr x)
    then show ?thesis using ms 1 by simp
  qed
qed

lemma adds_mono: "adds f a m \<Longrightarrow> a \<le> b \<Longrightarrow> adds f b m"
  unfolding adds_def by (meson add_left_mono le_trans)

lemma adds_forEach: "(\<And>x. adds f n (body x)) \<Longrightarrow> adds f (length xs * n) (forEach xs body)"
proof (induction xs)
  case Nil
  show ?case by (simp add: adds_returnE)
next
  case (Cons x xs)
  have "adds f (n + length xs * n) (bindE (body x) (\<lambda>_. forEach xs body))"
    by (rule adds_bindE) (use Cons in auto)
  then show ?case by simp
qed

lemma adds_liftW: "adds f n m \<Longrightarrow> adds (onWorld f) n (liftW m)"
  unfolding adds_def liftW_def onWorld_def
  by (auto split: prod.splits) (metis snd_conv)

lemma adds_modifyL_world: "adds (onWorld f) n (modifyL g)"
  by (auto simp: adds_def modifyL_def onWorld_def split: prod.splits)

lemma adds_modifyL_local: "(\<And>l. f (g l) \<le> f l + n) \<Longrightarrow> adds (onLocal f) n (modifyL g)"
  by (auto simp: adds_def modifyL_def onLocal_def split: prod.splits)

lemma adds_liftW_local: "adds (onLocal f) n (liftW m)"
  by (auto simp: adds_def liftW_def onLocal_def split: prod.splits)

subsection \<open>Rules for conditionals and case distinctions\<close>

lemma preserves_if: "preserves I a \<Longrightarrow> preserves I b \<Longrightarrow> preserves I (if c then a else b)"
  by simp

lemma nothrow_if: "nothrow a \<Longrightarrow> nothrow b \<Longrightarrow> nothrow (if c then a else b)"
  by simp

lemma adds_if: "adds f n a \<Longrightarrow> adds f n b \<Longrightarrow> adds f n (if c then a else b)"
  by simp

lemma preserves_case_prod: "(\<And>a b. preserves I (f a b)) \<Longrightarrow> preserves I (case p of (a, b) \<Rightarrow> f a b)"
  by (cases p) simp

lemma nothrow_case_prod: "(\<And>a b. nothrow (f a b)) \<Longrightarrow> nothrow (case p of (a, b) \<Rightarrow> f a b)"
  by (cases p) simp

lemma preserves_case_option: "preserves I a \<Longrightarrow> (\<And>x. preserves I (f x)) \<Longrightarrow> preserves I (case v of None \<Rightarrow> a | Some x \<Rightarrow> f x)"
  by (cases v) simp_all

lemma nothrow_case_option:
  "nothrow a \<Longrightarrow> (\<And>x. nothrow (f x)) \<Longrightarrow> nothrow (case v of None \<Rightarrow> a | Some x \<Rightarrow> f x)"
  by (cases v) simp_all

lemma adds_case_option:
  "adds g n a \<Longrightarrow> (\<And>x. adds g n (f x)) \<Longrightarrow> adds g n (case v of None \<Rightarrow> a | Some x \<Rightarrow> f x)"
  by (cases v) simp_all

lemma preserves_clock: "preserves I (\<lambda>w. (Inr (g w), w))"
  by (simp add: preserves_def)

lemma nothrow_clock: "nothrow (\<lambda>w. (Inr (g w), w))"
  by (simp add: nothrow_def)

lemmas nothrow_rules =
  nothrow_returnE nothrow_bindE nothrow_catchE nothrow_orElse nothrow_attempt nothrow_liftW
  nothrow_modifyL nothrow_getL nothrow_runLocal nothrow_forEach nothrow_if nothrow_case_prod
  nothrow_case_option nothrow_clock

lemmas preserves_rules =
  preserves_returnE preserves_throwE preserves_bindE preserves_catchE preserves_orElse preserves_attempt preserves_forEach preserves_if
  preserves_case_prod preserves_case_option preserves_clock preserves_getL

section \<open>Facts about the methods\<close>

subsection \<open>No exception leaves these methods\<close>

lemma nothrow_getElementInfo: "nothrow (getElementInfo d e)"
  unfolding getElementInfo_def by (intro nothrow_rules)

lemma nothrow_takeScreenshot: "nothrow (takeScreenshot d n)"
  unfolding takeScreenshot_def by (intro nothrow_rules)

lemma nothrow_getCurrentScreenInfo: "nothrow (getCurrentScreenInfo d)"
  unfolding getCurrentScreenInfo_def by (intro nothrow_rules)

lemma nothrow_discoverAllKinds: "nothrow (discoverAllKinds d)"
  unfolding discoverAllKinds_def by (intro nothrow_rules)

lemma nothrow_discoverElementsOnCurrentScreen: "nothrow (discoverElementsOnCurrentScreen d)"
  unfolding discoverElementsOnCurrentScreen_def
  by (intro nothrow_rules nothrow_getCurrentScreenInfo nothrow_discoverAllKinds nothrow_takeScreenshot)

lemma nothrow_clickInteraction: "nothrow (clickInteraction d t)"
  unfolding clickInteraction_def by (intro nothrow_rules)



subsection \<open>Screens are only ever appended\<close>

lemma preserves_prefix_clickInteraction: "preserves (onLocal (prefix xs)) (clickInteraction d t)"
  unfolding clickInteraction_def
  by (intro preserves_rules preserves_liftW_local preserves_modifyL_local) simp

lemma preserves_prefix_exploreElement: "preserves (onLocal (prefix xs)) (exploreElement d el)"
  unfolding exploreElement_def
  by (intro preserves_rules preserves_liftW_local preserves_prefix_clickInteraction)

lemma adds_screens_clickInteraction: "adds (onLocal length) 1 (clickInteraction d t)"
proof -
  have "adds (onLocal length) (0 + (0 + (1 + 0)) + 0) (clickInteraction d t)"
    unfolding clickInteraction_def
    apply (rule adds_catchE)
     apply (rule adds_bindE)
      apply (rule adds_liftW_local)
     apply (rule adds_if)
      apply (rule adds_mono[where a="0 + (0 + (1 + 0))"])
       apply (rule adds_bindE)
        apply (rule adds_liftW_local)
       apply (rule adds_bindE)
        apply (rule adds_liftW_local)
       apply (rule adds_bindE)
        apply (rule adds_case_option)
         apply (rule adds_returnE)
        apply (rule adds_modifyL_local)
        apply simp
       apply (rule adds_liftW_local)
      apply simp
     apply (rule adds_returnE)
    apply (rule adds_returnE)
    done
  then show ?thesis by simp
qed

subsection \<open>Calls of the traced driver\<close>

lemma preserves_logged: "\<not> isClick c \<Longrightarrow> preserves (clicksAre cs) (logged c m)"
  by (auto simp: preserves_def logged_def clicksAre_def clicks_def split: prod.splits)

lemma traced_simps:
  "findAll (traced d) = (\<lambda>s. logged (CFindAll s) (findAll d s))"
  "findOne (traced d) = (\<lambda>s. logged (CFindOne s) (findOne d s))"
  "isDisplayed (traced d) = (\<lambda>e. logged (CIsDisplayed e) (isDisplayed d e))"
  "getText (traced d) = (\<lambda>e. logged (CGetText e) (getText d e))"
  "getTagName (traced d) = (\<lambda>e. logged (CGetTagName e) (getTagName d e))"
  "getAttribute (traced d) = (\<lambda>e a. logged (CGetAttribute e a) (getAttribute d e a))"
  "getRect (traced d) = (\<lambda>e. logged (CGetRect e) (getRect d e))"
  "click (traced d) = (\<lambda>e. logged (CClick e) (click d e))"
  "back (traced d) = logged CBack (back d)"
  "saveScreenshot (traced d) = (\<lambda>f. logged (CSaveScreenshot f) (saveScreenshot d f))"
  "getCurrentActivity (traced d) = logged CGetCurrentActivity (getCurrentActivity d)"
  "getCurrentPackage (traced d) = logged CGetCurrentPackage (getCurrentPackage d)"
  "getPageSource (traced d) = logged CGetPageSource (getPageSource d)"
  "getWindowSize (traced d) = logged CGetWindowSize (getWindowSize d)"
  by (simp_all add: traced_def)

lemma preserves_traced_calls:
  "preserves (clicksAre cs) (findAll (traced d) sel)"
  "preserves (clicksAre cs) (findOne (traced d) sel)"
  "preserves (clicksAre cs) (isDisplayed (traced d) e)"
  "preserves (clicksAre cs) (getText (traced d) e)"
  "preserves (clicksAre cs) (getTagName (traced d) e)"
  "preserves (clicksAre cs) (getAttribute (traced d) e a)"
  "preserves (clicksAre cs) (getRect (traced d) e)"
  "preserves (clicksAre cs) (back (traced d))"
  "preserves (clicksAre cs) (saveScreenshot (traced d) f)"
  "preserves (clicksAre cs) (getCurrentActivity (traced d))"
  "preserves (clicksAre cs) (getCurrentPackage (traced d))"
  "preserves (clicksAre cs) (getPageSource (traced d))"
  "preserves (clicksAre cs) (getWindowSize (traced d))"
  by (simp_all add: traced_simps preserves_logged)

lemma adds_click: "adds nclicks 1 (click (traced d) e)"
  by (auto simp: traced_simps adds_def logged_def nclicks_def clicks_def split: prod.splits)

lemma keeps_adds_world: "(\<And>cs. preserves (onWorld (clicksAre cs)) m) \<Longrightarrow> adds (onWorld nclicks) n m"
  unfolding preserves_def adds_def clicksAre_def nclicks_def onWorld_def by simp

subsection \<open>Discovery sends no click\<close>

lemmas preservesW_rules = preserves_rules preserves_liftW_world preserves_modifyL_world preserves_traced_calls

lemma preserves_takeScreenshot: "preserves (clicksAre cs) (takeScreenshot (traced d) n)"
  unfolding takeScreenshot_def by (intro preservesW_rules)

lemma preserves_getCurrentScreenInfo: "preserves (clicksAre cs) (getCurrentScreenInfo (traced d))"
  unfolding getCurrentScreenInfo_def by (intro preservesW_rules)

lemma preserves_discoverClickable: "preserves (onWorld (clicksAre cs)) (discoverClickable (traced d))"
  unfolding discoverClickable_def by (intro preservesW_rules)

lemma preserves_discoverInputs: "preserves (onWorld (clicksAre cs)) (discoverInputs (traced d))"
  unfolding discoverInputs_def by (intro preservesW_rules)

lemma preserves_discoverTexts: "preserves (onWorld (clicksAre cs)) (discoverTexts (traced d))"
  unfolding discoverTexts_def by (intro preservesW_rules)

lemma preserves_discoverScrollable: "preserves (onWorld (clicksAre cs)) (discoverScrollable (traced d))"
  unfolding discoverScrollable_def by (intro preservesW_rules)

lemma preserves_discoverAllKinds: "preserves (onWorld (clicksAre cs)) (discoverAllKinds (traced d))"
  unfolding discoverAllKinds_def
  by (intro preserves_rules preserves_discoverClickable preserves_discoverInputs preserves_discoverTexts
      preserves_discoverScrollable)

lemma preserves_discoverElementsOnCurrentScreen:
  "preserves (clicksAre cs) (discoverElementsOnCurrentScreen (traced d))"
  unfolding discoverElementsOnCurrentScreen_def
  by (intro preserves_rules preserves_runLocal preserves_getCurrentScreenInfo preserves_discoverAllKinds preserves_takeScreenshot)

lemma preserves_case_sum:
  "(\<And>x. preserves I (f x)) \<Longrightarrow> (\<And>y. preserves I (g y)) \<Longrightarrow> preserves I (case v of Inl x \<Rightarrow> f x | Inr y \<Rightarrow> g y)"
  by (cases v) simp_all

lemma preserves_case_bool: "preserves I a \<Longrightarrow> preserves I b \<Longrightarrow> preserves I (case v of True \<Rightarrow> a | False \<Rightarrow> b)"
  by (cases v) simp_all

lemma preserves_tryXPathSelectors: "preserves (clicksAre cs) (tryXPathSelectors (traced d) sels t)"
proof (induction sels arbitrary: t)
  case Nil
  show ?case by (simp add: preserves_returnE)
next
  case (Cons sel sels)
  show ?case
    unfolding tryXPathSelectors.simps
    by (intro preserves_rules preserves_case_sum preserves_case_bool preserves_traced_calls Cons)
qed

lemma preserves_locateElement: "preserves (clicksAre cs) (locateElement (traced d) el)"
  unfolding locateElement_def
  by (intro preserves_rules preserves_tryXPathSelectors preserves_traced_calls)

subsection \<open>One descriptor, one click at most\<close>

lemma adds_bindE_keep:
  "adds f 0 m \<Longrightarrow> (\<And>x. adds f n (g x)) \<Longrightarrow> adds f n (bindE m g)"
  using adds_bindE[of f 0 m n g] by simp

lemma adds_bindE_then:
  "adds f n m \<Longrightarrow> (\<And>x. adds f 0 (g x)) \<Longrightarrow> adds f n (bindE m g)"
  using adds_bindE[of f n m 0 g] by simp

lemma adds_catchE_skip:
  "adds f n m \<Longrightarrow> (\<And>e. adds f 0 (h e)) \<Longrightarrow> adds f n (catchE m h)"
  using adds_catchE[of f n m 0 h] by simp

lemma adds_clicks_clickInteraction:
  "adds (onWorld nclicks) 1 (clickInteraction (traced d) t)"
  unfolding clickInteraction_def
  apply (rule adds_catchE_skip)
   apply (rule adds_bindE_keep)
    apply (rule keeps_adds_world, rule preserves_liftW_world, rule preserves_traced_calls)
   apply (rule adds_if)
    apply (rule adds_bindE_then)
     apply (rule adds_liftW, rule adds_click)
    apply (rule keeps_adds_world)
    apply (intro preservesW_rules preserves_discoverElementsOnCurrentScreen)
   apply (rule adds_returnE)
  apply (rule adds_returnE)
  done

lemma adds_clicks_exploreElement:
  "adds (onWorld nclicks) 1 (exploreElement (traced d) el)"
  unfolding exploreElement_def
  apply (rule adds_if)
   apply (rule adds_catchE_skip)
    apply (rule adds_bindE_keep)
     apply (rule keeps_adds_world, rule preserves_liftW_world, rule preserves_locateElement)
    apply (rule adds_case_option)
     apply (rule adds_returnE)
    apply (rule adds_clicks_clickInteraction)
   apply (rule adds_returnE)
  apply (rule adds_returnE)
  done

lemma adds_clicks_explore:
  "adds (onWorld nclicks) 5 (exploreClickableElements (traced d))"
  unfolding exploreClickableElements_def
  apply (rule adds_bindE_keep)
   apply (rule keeps_adds_world, rule preserves_liftW_world, rule preserves_discoverElementsOnCurrentScreen)
  apply (rule adds_case_option)
   apply (rule adds_returnE)
  apply (rule adds_bindE_keep)
   apply (rule adds_modifyL_world)
  apply (rule adds_mono[OF adds_forEach[where n=1]])
   apply (rule adds_clicks_exploreElement)
  apply simp
  done

subsection \<open>One descriptor, one screen at most\<close>

lemma adds_screens_exploreElement: "adds (onLocal length) 1 (exploreElement d el)"
  unfolding exploreElement_def
  apply (rule adds_if)
   apply (rule adds_catchE_skip)
    apply (rule adds_bindE_keep)
     apply (rule adds_liftW_local)
    apply (rule adds_case_option)
     apply (rule adds_returnE)
    apply (rule adds_screens_clickInteraction)
   apply (rule adds_returnE)
  apply (rule adds_returnE)
  done

lemma adds_screens_explore: "adds (onLocal length) 6 (exploreClickableElements d)"
proof -
  have "adds (onLocal length) (0 + (1 + 5)) (exploreClickableElements d)"
    unfolding exploreClickableElements_def
    apply (rule adds_bindE)
     apply (rule adds_liftW_local)
    apply (rule adds_case_option)
     apply (rule adds_returnE)
    apply (rule adds_bindE)
     apply (rule adds_modifyL_local)
     apply simp
    apply (rule adds_mono[OF adds_forEach[where n=1]])
     apply (rule adds_screens_exploreElement)
    apply simp
    done
  then show ?thesis by simp
qed


subsection \<open>Destruction rules and small facts\<close>


lemma preservesD: "preserves I m \<Longrightarrow> I s \<Longrightarrow> I (snd (m s))"
  unfolding preserves_def by blast

lemma addsD: "adds f n m \<Longrightarrow> f (snd (m s)) \<le> f s + n"
  unfolding adds_def by blast

lemma some_iff: "some xs p \<longleftrightarrow> (\<exists>x \<in> set xs. p x)"
  by (induction xs) auto

lemma orElse_fails: "m s = (Inl err, s') \<Longrightarrow> orElse m x s = (Inr x, s')"
  by (simp add: orElse_def catchE_def returnE_def)


lemma takeScreenshot_result: "\<exists>shot w'. takeScreenshot d name w = (Inr shot, w')"
  using nothrowD[OF nothrow_takeScreenshot] by metis

lemma demo_discover: "fst (discoverElementsOnCurrentScreen demoDriver 0) = Inr (Some demoMainScreen)"
  by code_simp

lemma demo_discover_traced:
  "fst (discoverElementsOnCurrentScreen (traced demoDriver) (0, [])) = Inr (Some demoMainScreen)"
  by code_simp

section \<open>Descriptor extraction\<close>

lemma gettersFail_failingDriver: "gettersFail failingDriver e"
  by (simp add: gettersFail_def failingDriver_def throwE_def)

lemma getElementInfo_all_fail:
  assumes "gettersFail d e"
  shows "fst (getElementInfo d e w) =
           Inr \<lparr>text = '''', className = JStr '''', resourceId = JStr '''', contentDesc = JStr '''',
                clickable = False, enabled = True, bounds = EmptyObject, selectors = [],
                inputType = None, checked = None\<rparr>"
proof -
  have t: "\<And>w. \<exists>w'. orElse (getText d e) '''' w = (Inr '''', w')"
    using assms unfolding gettersFail_def by (metis orElse_fails)
  have a: "\<And>a x w. \<exists>w'. orElse (getAttribute d e a) x w = (Inr x, w')"
    using assms unfolding gettersFail_def by (metis orElse_fails)
  have r: "\<And>w. \<exists>w'. orElse (getRect d e) EmptyObject w = (Inr EmptyObject, w')"
    using assms unfolding gettersFail_def by (metis orElse_fails)
  obtain w1 where 1: "orElse (getText d e) '''' w = (Inr '''', w1)" using t by blast
  obtain w2 where 2: "orElse (getAttribute d e ''class'') (JStr '''') w1 = (Inr (JStr ''''), w2)"
    using a by blast
  obtain w3 where 3: "orElse (getAttribute d e ''resource-id'') (JStr '''') w2 = (Inr (JStr ''''), w3)"
    using a by blast
  obtain w4 where 4: "orElse (getAttribute d e ''content-desc'') (JStr '''') w3 = (Inr (JStr ''''), w4)"
    using a by blast
  obtain w5 where 5: "orElse (getAttribute d e ''clickable'') (JStr ''false'') w4 = (Inr (JStr ''false''), w5)"
    using a by blast
  obtain w6 where 6: "orElse (getAttribute d e ''enabled'') (JStr ''true'') w5 = (Inr (JStr ''true''), w6)"
    using a by blast
  obtain w7 where 7: "orElse (getRect d e) EmptyObject w6 = (Inr EmptyObject, w7)"
    using r by blast
  show ?thesis
    by (simp add: getElementInfo_def catchE_def bindE_def returnE_def 1 2 3 4 5 6 7
        generateSelectors_def trim_def)
qed

text \<open>
  C1, as the code has it. For every driver, element and world, \<open>getElementInfo\<close> resolves to a
  descriptor and never throws. When every getter of the element throws, the descriptor is:
  text, class, resource id and content description empty, bounds the empty object, selectors
  empty, \<open>clickable\<close> false and \<open>enabled\<close> true; \<open>getElementInfo\<close> sets no \<open>checked\<close> property.
\<close>

theorem getElementInfo_degrades:
  "(\<exists>i. fst (getElementInfo d e w) = Inr i)
   \<and> (gettersFail d e \<longrightarrow>
        fst (getElementInfo d e w) =
          Inr \<lparr>text = '''', className = JStr '''', resourceId = JStr '''', contentDesc = JStr '''',
               clickable = False, enabled = True, bounds = EmptyObject, selectors = [],
               inputType = None, checked = None\<rparr>)"
  using nothrow_getElementInfo[of d e] getElementInfo_all_fail[of d e w]
  unfolding nothrow_def by blast

text \<open>The mock node whose getters all throw satisfies the hypothesis and gets these defaults.\<close>

theorem getElementInfo_degrades_witness:
  "gettersFail failingDriver 0
   \<and> fst (getElementInfo failingDriver 0 ()) =
          Inr \<lparr>text = '''', className = JStr '''', resourceId = JStr '''', contentDesc = JStr '''',
               clickable = False, enabled = True, bounds = EmptyObject, selectors = [],
               inputType = None, checked = None\<rparr>"
  using getElementInfo_degrades[of failingDriver 0 "()"] gettersFail_failingDriver[of 0] by simp

text \<open>
  C1 as stated has \<open>enabled\<close> false when its read fails. On the node whose getters all throw
  the descriptor has \<open>enabled\<close> true: the substitute of a failed read of \<open>enabled\<close> is the
  string \<open>true\<close>.
\<close>

theorem getElementInfo_enabled_counterexample:
  "gettersFail failingDriver 0
   \<and> map_sum id enabled (fst (getElementInfo failingDriver 0 ())) = Inr True"
proof
  show "gettersFail failingDriver 0" by (rule gettersFail_failingDriver)
  show "map_sum id enabled (fst (getElementInfo failingDriver 0 ())) = Inr True"
    by code_simp
qed

section \<open>Selector synthesis\<close>

text \<open>
  C2, as the code has it. Both synthesizers emit the tiers in the order resource id, exact
  text, content description, two locators per tier. The resource-id tier is present exactly
  when the resource id is non-empty (it is not trimmed); the text and content-description
  tiers exactly when the attribute is non-empty after trimming. With a non-empty resource id
  the first locator is built on it. No locator has an empty quoted attribute.
\<close>

theorem selector_tiers_ordered:
  "map selector_tier (generateSelectors t c r d) =
      (if truthy r then [1, 1] else []) @ (if t \<noteq> [] \<and> trim t \<noteq> [] then [2, 2] else [])
      @ (if truthy_trimmed d then [3, 3] else [])
   \<and> map selector_tier (generateSelector tn t d r) =
      (if truthy r then [1, 1] else []) @ (if t \<noteq> [] \<and> trim t \<noteq> [] then [2, 2] else [])
      @ (if truthy_trimmed d then [3, 3] else [])
   \<and> (truthy r \<longrightarrow> hd (generateSelectors t c r d) = ''//*[@resource-id=\"'' @ interp r @ ''\"]''
               \<and> hd (generateSelector tn t d r) = ''android=new UiSelector().resourceId(\"'' @ interp r @ ''\")'')
   \<and> ''//*[@resource-id=\"\"]'' \<notin> set (generateSelectors t c r d) \<union> set (generateSelector tn t d r)
   \<and> ''android=new UiSelector().resourceId(\"\")'' \<notin> set (generateSelectors t c r d) \<union> set (generateSelector tn t d r)
   \<and> ''//*[@text=\"\"]'' \<notin> set (generateSelectors t c r d) \<union> set (generateSelector tn t d r)
   \<and> ''android=new UiSelector().text(\"\")'' \<notin> set (generateSelectors t c r d) \<union> set (generateSelector tn t d r)
   \<and> ''//*[@content-desc=\"\"]'' \<notin> set (generateSelectors t c r d) \<union> set (generateSelector tn t d r)
   \<and> ''android=new UiSelector().description(\"\")'' \<notin> set (generateSelectors t c r d) \<union> set (generateSelector tn t d r)"
  by (cases r; cases d)
     (simp_all add: generateSelectors_def generateSelector_def selector_tier_def Let_def)

text \<open>A descriptor with resource id, text and content description: the first locator is on the id.\<close>

theorem selector_tiers_ordered_witness:
  "truthy (JStr ''id/ok'')
   \<and> hd (generateSelectors ''OK'' (JStr ''Button'') (JStr ''id/ok'') (JStr ''Confirm''))
       = ''//*[@resource-id=\"id/ok\"]''
   \<and> hd (generateSelector ''Button'' ''OK'' (JStr ''Confirm'') (JStr ''id/ok''))
       = ''android=new UiSelector().resourceId(\"id/ok\")''"
  using selector_tiers_ordered[of "''OK''" "JStr ''Button''" "JStr ''id/ok''" "JStr ''Confirm''" "''Button''"]
  by simp

text \<open>
  C2 as stated includes each tier only when its attribute is non-empty after trimming. A
  resource id of one space is empty after trimming, and the resource-id tier is there.
\<close>

theorem identifier_tier_untrimmed_counterexample:
  "trim (interp (JStr '' '')) = []
   \<and> hd (generateSelectors '''' (JStr '''') (JStr '' '') (JStr '''')) = ''//*[@resource-id=\" \"]''
   \<and> hd (generateSelector '''' '''' (JStr '''') (JStr '' '')) = ''android=new UiSelector().resourceId(\" \")''"
  by (simp add: generateSelectors_def generateSelector_def trim_def is_ws_def)

section \<open>The duplicate filter\<close>

text \<open>
  C3. A candidate is a duplicate exactly when some descriptor already in the list has the same
  resource id, text and class name; the guarded push drops it exactly then. Changing bounds,
  \<open>enabled\<close> or \<open>clickable\<close>, of the candidate or of the list, does not change the decision; of
  two candidates with the same key, pushed one after the other, only the first is kept.
\<close>

theorem isDuplicate_key:
  "(isDuplicate array c \<longleftrightarrow>
      (\<exists>item \<in> set array. resourceId item = resourceId c \<and> text item = text c \<and> className item = className c))
   \<and> pushUnlessDuplicate array c =
       (if \<exists>item \<in> set array. resourceId item = resourceId c \<and> text item = text c \<and> className item = className c
        then array else array @ [c])
   \<and> isDuplicate (map (\<lambda>i. i\<lparr>bounds := fb i, enabled := fe i, clickable := fc i\<rparr>) array)
                  (c\<lparr>bounds := b, enabled := e, clickable := k\<rparr>) = isDuplicate array c
   \<and> (resourceId a = resourceId a' \<and> text a = text a' \<and> className a = className a'
        \<longrightarrow> pushUnlessDuplicate (pushUnlessDuplicate array a) a' = pushUnlessDuplicate array a)"
  by (auto simp: isDuplicate_def some_iff pushUnlessDuplicate_def)

text \<open>The same button found twice, the second time 40 pixels lower: the list keeps the first.\<close>

theorem isDuplicate_key_witness:
  "resourceId okButton = resourceId okButtonMoved \<and> text okButton = text okButtonMoved
   \<and> className okButton = className okButtonMoved \<and> bounds okButton \<noteq> bounds okButtonMoved
   \<and> isDuplicate [okButton] okButtonMoved
   \<and> pushUnlessDuplicate (pushUnlessDuplicate [] okButton) okButtonMoved = [okButton]"
  using isDuplicate_key[where array = "[okButton]" and c = okButtonMoved and a = okButton
      and a' = okButtonMoved]
    isDuplicate_key[where array = "[]" and c = okButton and a = okButton and a' = okButtonMoved]
  by (simp add: okButton_def okButtonMoved_def)

section \<open>The positional locator of a text field\<close>

lemma generateInputSelector_last:
  "generateInputSelector hint rid i \<noteq> []
   \<and> last (generateInputSelector hint rid i) = positional (i + 1)"
  by (simp add: generateInputSelector_def positional_def Let_def)

text \<open>
  C4, as the code has it. The positional locator of the 1-based position is always the last
  selector of a text field, whether or not the field has a resource id or a hint; it is the
  only selector exactly when the field has neither.
\<close>

theorem positional_always_last:
  "last (generateInputSelector hint rid i) = positional (i + 1)
   \<and> positional (i + 1) \<in> set (generateInputSelector hint rid i)
   \<and> (generateInputSelector hint rid i = [positional (i + 1)]
        \<longleftrightarrow> \<not> truthy rid \<and> \<not> truthy_trimmed hint)"
  by (simp add: generateInputSelector_def positional_def Let_def)

text \<open>
  C4 as stated gives no positional locator to a text field that has a resource id or a hint.
  A field with both has it.
\<close>

theorem positional_with_identifier_counterexample:
  "truthy (JStr ''id/name'') \<and> truthy_trimmed (JStr ''Name'')
   \<and> ''(//android.widget.EditText)[1]'' \<in> set (generateInputSelector (JStr ''Name'') (JStr ''id/name'') 0)"
  by (simp add: generateInputSelector_def Let_def string_of_nat.simps digit_char_def trim_def
      is_ws_def)

section \<open>The exploration run\<close>

lemma exploreElement_skip:
  "ce_text el = [] \<Longrightarrow> \<not> truthy (ce_contentDesc el) \<Longrightarrow> exploreElement d el s = (Inr (), s)"
  by (simp add: exploreElement_def returnE_def)

lemma adds_forEach_weighted:
  "(\<And>x. adds f (g x) (body x)) \<Longrightarrow> adds f (sum_list (map g xs)) (forEach xs body)"
proof (induction xs)
  case Nil
  show ?case by (simp add: adds_returnE)
next
  case (Cons x xs)
  have "adds f (g x + sum_list (map g xs)) (bindE (body x) (\<lambda>_. forEach xs body))"
    by (rule adds_bindE) (use Cons in auto)
  then show ?case by simp
qed

lemma count_labelled: "sum_list (map (\<lambda>x. if P x then 1 else 0) xs) = length (filter P xs)"
  by (induction xs) auto

lemma adds_clicks_exploreElement_labelled:
  "adds (onWorld nclicks) (if hasLabel el then 1 else 0) (exploreElement (traced d) el)"
proof (cases "hasLabel el")
  case True
  then show ?thesis using adds_clicks_exploreElement[of d el] by simp
next
  case False
  then have "exploreElement (traced d) el = returnE ()"
    by (simp add: exploreElement_def hasLabel_def)
  then show ?thesis using False by (simp add: adds_returnE)
qed

lemma adds_clicks_loop_labelled:
  "adds (onWorld nclicks) (length (filter hasLabel xs)) (forEach xs (exploreElement (traced d)))"
  using adds_forEach_weighted[of "onWorld nclicks" "\<lambda>el. if hasLabel el then 1 else 0"
      "exploreElement (traced d)" xs, OF adds_clicks_exploreElement_labelled]
  by (simp add: count_labelled)

lemma explore_clicks_labelled:
  "length (clicks (logOf (snd (exploreClickableElements (traced d) (screens, w, tr)))))
     \<le> length (clicks tr) +
        (case fst (discoverElementsOnCurrentScreen (traced d) (w, tr)) of
           Inr (Some ms) \<Rightarrow> length (filter hasLabel (take 5 (els_clickable (elements ms))))
         | _ \<Rightarrow> 0)"
proof -
  obtain r s1 where run: "discoverElementsOnCurrentScreen (traced d) (w, tr) = (Inr r, s1)"
    using nothrowD[OF nothrow_discoverElementsOnCurrentScreen] by metis
  have c: "clicks (snd s1) = clicks tr"
    using preservesD[OF preserves_discoverElementsOnCurrentScreen[of "clicks tr" d], of "(w, tr)"] run
    by (simp add: clicksAre_def)
  show ?thesis
  proof (cases r)
    case None
    then show ?thesis
      using run c by (simp add: exploreClickableElements_def bindE_def liftW_def returnE_def logOf_def)
  next
    case (Some ms)
    have eq: "exploreClickableElements (traced d) (screens, w, tr) =
             forEach (take 5 (els_clickable (elements ms))) (exploreElement (traced d))
               (screens @ [ms], s1)"
      using run Some by (simp add: exploreClickableElements_def bindE_def liftW_def modifyL_def)
    from addsD[OF adds_clicks_loop_labelled[of "take 5 (els_clickable (elements ms))" d],
        of "(screens @ [ms], s1)"]
    show ?thesis
      using run Some eq c by (simp add: onWorld_def nclicks_def logOf_def)
  qed
qed

text \<open>
  C5. A run sends at most five clicks to the driver, and no more clicks than there are
  descriptors with text or content description among the first five clickable descriptors of
  the starting snapshot. It appends at most six snapshots, the starting one and one per
  click. A descriptor with neither text nor content description is skipped: its loop body
  returns at once and leaves the state, the world and the log of calls as they were.
\<close>

theorem explore_bounded:
  "length (clicks (logOf (snd (exploreClickableElements (traced d) (screens, w, tr)))))
      \<le> length (clicks tr) + 5
   \<and> length (clicks (logOf (snd (exploreClickableElements (traced d) (screens, w, tr)))))
      \<le> length (clicks tr) +
         (case fst (discoverElementsOnCurrentScreen (traced d) (w, tr)) of
            Inr (Some ms) \<Rightarrow> length (filter hasLabel (take 5 (els_clickable (elements ms))))
          | _ \<Rightarrow> 0)
   \<and> length (fst (snd (exploreClickableElements d (screens, w)))) \<le> length screens + 1 + 5
   \<and> (ce_text el = [] \<and> \<not> truthy (ce_contentDesc el) \<longrightarrow> exploreElement d el s = (Inr (), s))"
proof (intro conjI impI)
  show "length (clicks (logOf (snd (exploreClickableElements (traced d) (screens, w, tr)))))
      \<le> length (clicks tr) + 5"
    using addsD[OF adds_clicks_explore[of d], of "(screens, w, tr)"]
    by (simp add: onWorld_def nclicks_def logOf_def)
  show "length (clicks (logOf (snd (exploreClickableElements (traced d) (screens, w, tr)))))
      \<le> length (clicks tr) +
         (case fst (discoverElementsOnCurrentScreen (traced d) (w, tr)) of
            Inr (Some ms) \<Rightarrow> length (filter hasLabel (take 5 (els_clickable (elements ms))))
          | _ \<Rightarrow> 0)"
    by (rule explore_clicks_labelled)
  show "length (fst (snd (exploreClickableElements d (screens, w)))) \<le> length screens + 1 + 5"
    using addsD[OF adds_screens_explore[of d], of "(screens, w)"]
    by (simp add: onLocal_def)
next
  assume "ce_text el = [] \<and> \<not> truthy (ce_contentDesc el)"
  then show "exploreElement d el s = (Inr (), s)"
    by (simp add: exploreElement_skip)
qed

text \<open>
  A descriptor that has a resource id but no text and no content description is skipped; the
  run on the small application, whose starting screen has one labelled descriptor, sends one
  click at most.
\<close>

theorem explore_bounded_witness:
  "ce_text unlabelled = [] \<and> \<not> truthy (ce_contentDesc unlabelled)
   \<and> exploreElement (traced demoDriver) unlabelled ([], 0, []) = (Inr (), ([], 0, []))
   \<and> length (clicks (logOf (snd (exploreClickableElements (traced demoDriver) ([], 0, []))))) \<le> 1"
  using explore_bounded[where d = "traced demoDriver" and el = unlabelled and s = "([], 0, [])"]
    explore_bounded[where d = demoDriver and screens = "[]" and w = 0 and tr = "[]"]
    demo_discover_traced
  by (simp add: unlabelled_def demoMainScreen_def hasLabel_def clicks_def)




text \<open>
  C9. The discovery of the starting screen sends no click. When it yields no snapshot the
  run ends there, with no click sent. When it yields the snapshot \<open>ms\<close>, the rest of the run is
  the loop over the first five clickable descriptors of \<open>ms\<close> itself, started from the state in
  which \<open>ms\<close> is already appended, and \<open>ms\<close> stays at its place to the end: every click is sent
  for a descriptor of a snapshot that is already in \<open>discoveredScreens\<close>.
\<close>

theorem first_capture_precedes_clicks:
  "clicks (snd (snd (discoverElementsOnCurrentScreen (traced d) (w, tr)))) = clicks tr
   \<and> (case fst (discoverElementsOnCurrentScreen (traced d) (w, tr)) of
         Inr (Some ms) \<Rightarrow>
           exploreClickableElements (traced d) (screens, w, tr) =
             forEach (take 5 (els_clickable (elements ms))) (exploreElement (traced d))
               (screens @ [ms], snd (discoverElementsOnCurrentScreen (traced d) (w, tr)))
           \<and> prefix (screens @ [ms]) (fst (snd (exploreClickableElements (traced d) (screens, w, tr))))
       | _ \<Rightarrow>
           exploreClickableElements (traced d) (screens, w, tr) =
             (Inr (), screens, snd (discoverElementsOnCurrentScreen (traced d) (w, tr))))"
proof
  show "clicks (snd (snd (discoverElementsOnCurrentScreen (traced d) (w, tr)))) = clicks tr"
    using preservesD[OF preserves_discoverElementsOnCurrentScreen[of "clicks tr" d], of "(w, tr)"]
    by (simp add: clicksAre_def)
next
  obtain r s1 where run: "discoverElementsOnCurrentScreen (traced d) (w, tr) = (Inr r, s1)"
    using nothrowD[OF nothrow_discoverElementsOnCurrentScreen] by metis
  show "case fst (discoverElementsOnCurrentScreen (traced d) (w, tr)) of
         Inr (Some ms) \<Rightarrow>
           exploreClickableElements (traced d) (screens, w, tr) =
             forEach (take 5 (els_clickable (elements ms))) (exploreElement (traced d))
               (screens @ [ms], snd (discoverElementsOnCurrentScreen (traced d) (w, tr)))
           \<and> prefix (screens @ [ms]) (fst (snd (exploreClickableElements (traced d) (screens, w, tr))))
       | _ \<Rightarrow>
           exploreClickableElements (traced d) (screens, w, tr) =
             (Inr (), screens, snd (discoverElementsOnCurrentScreen (traced d) (w, tr)))"
  proof (cases r)
    case None
    then show ?thesis
      using run by (simp add: exploreClickableElements_def bindE_def liftW_def returnE_def)
  next
    case (Some ms)
    have eq: "exploreClickableElements (traced d) (screens, w, tr) =
             forEach (take 5 (els_clickable (elements ms))) (exploreElement (traced d))
               (screens @ [ms], s1)"
      using run Some by (simp add: exploreClickableElements_def bindE_def liftW_def modifyL_def)
    have "preserves (onLocal (prefix (screens @ [ms])))
            (forEach (take 5 (els_clickable (elements ms))) (exploreElement (traced d)))"
      by (intro preserves_forEach preserves_prefix_exploreElement)
    from preservesD[OF this, of "(screens @ [ms], s1)"]
    have "prefix (screens @ [ms])
        (fst (snd (forEach (take 5 (els_clickable (elements ms))) (exploreElement (traced d)) (screens @ [ms], s1))))"
      by (simp add: onLocal_def)
    then show ?thesis using run Some eq by simp
  qed
qed

text \<open>
  On the small application the starting discovery sends no click, and the run keeps the
  snapshot of screen 0 first.
\<close>

theorem first_capture_precedes_clicks_witness:
  "clicks (snd (snd (discoverElementsOnCurrentScreen (traced demoDriver) (0, [])))) = []
   \<and> fst (discoverElementsOnCurrentScreen (traced demoDriver) (0, [])) = Inr (Some demoMainScreen)
   \<and> prefix [demoMainScreen] (fst (snd (exploreClickableElements (traced demoDriver) ([], 0, []))))"
proof -
  note t = first_capture_precedes_clicks[where d = demoDriver and w = 0 and tr = "[]" and screens = "[]"]
  from t have c: "clicks (snd (snd (discoverElementsOnCurrentScreen (traced demoDriver) (0, [])))) = clicks []"
    by (rule conjunct1)
  from t have "case fst (discoverElementsOnCurrentScreen (traced demoDriver) (0, [])) of
         Inr (Some ms) \<Rightarrow>
           exploreClickableElements (traced demoDriver) ([], 0, []) =
             forEach (take 5 (els_clickable (elements ms))) (exploreElement (traced demoDriver))
               ([] @ [ms], snd (discoverElementsOnCurrentScreen (traced demoDriver) (0, [])))
           \<and> prefix ([] @ [ms]) (fst (snd (exploreClickableElements (traced demoDriver) ([], 0, []))))
       | _ \<Rightarrow>
           exploreClickableElements (traced demoDriver) ([], 0, []) =
             (Inr (), [], snd (discoverElementsOnCurrentScreen (traced demoDriver) (0, [])))"
    by (rule conjunct2)
  then have "exploreClickableElements (traced demoDriver) ([], 0, []) =
             forEach (take 5 (els_clickable (elements demoMainScreen))) (exploreElement (traced demoDriver))
               ([] @ [demoMainScreen], snd (discoverElementsOnCurrentScreen (traced demoDriver) (0, [])))
           \<and> prefix ([] @ [demoMainScreen]) (fst (snd (exploreClickableElements (traced demoDriver) ([], 0, []))))"
    unfolding demo_discover_traced sum.case option.case .
  then have p: "prefix ([] @ [demoMainScreen]) (fst (snd (exploreClickableElements (traced demoDriver) ([], 0, []))))"
    by (rule conjunct2)
  show ?thesis
    using c p demo_discover_traced by (simp add: clicks_def)
qed

section \<open>The discovery pass of the element finder\<close>

lemma nothrow_findButtons: "nothrow (findButtons d)"
  unfolding findButtons_def by (intro nothrow_rules)

lemma nothrow_findInputFields: "nothrow (findInputFields d)"
  unfolding findInputFields_def by (intro nothrow_rules)

lemma nothrow_findImageElements: "nothrow (findImageElements d)"
  unfolding findImageElements_def by (intro nothrow_rules)

lemma nothrow_findListElements: "nothrow (findListElements d)"
  unfolding findListElements_def by (intro nothrow_rules)

lemma nothrow_findCheckboxes: "nothrow (findCheckboxes d)"
  unfolding findCheckboxes_def by (intro nothrow_rules)

lemma nothrow_findCustomElements: "nothrow (findCustomElements d)"
  unfolding findCustomElements_def by (intro nothrow_rules)

lemma findTextElements_throws:
  "findAll d ''//android.widget.TextView'' w = (Inl err, w') \<Longrightarrow>
   findTextElements d (fe, w) = (Inl err, (fe, w'))"
  by (simp add: findTextElements_def bindE_def liftW_def)

text \<open>
  Six of the seven methods catch a query that throws. \<open>findTextElements\<close> does not: whenever
  the query for text views throws, \<open>findAllElementTypes\<close> throws the same exception.
\<close>

lemma findAllElementTypes_throws:
  assumes "\<And>w. \<exists>w'. findAll d ''//android.widget.TextView'' w = (Inl err, w')"
  shows "fst (findAllElementTypes d s) = Inl err"
proof -
  obtain u1 s1 where 1: "findButtons d s = (Inr u1, s1)"
    using nothrowD[OF nothrow_findButtons] by metis
  obtain u2 s2 where 2: "findInputFields d s1 = (Inr u2, s2)"
    using nothrowD[OF nothrow_findInputFields] by metis
  obtain fe w where s2: "s2 = (fe, w)" by (cases s2)
  obtain w' where "findAll d ''//android.widget.TextView'' w = (Inl err, w')"
    using assms by blast
  then have 3: "findTextElements d s2 = (Inl err, (fe, w'))"
    unfolding s2 by (rule findTextElements_throws)
  show ?thesis
    by (simp add: findAllElementTypes_def bindE_def 1 2 3)
qed

text \<open>
  C7, on a session whose query for text views throws. The claim has the exception caught and
  the queries of the other kinds still sent. \<open>findAllElementTypes\<close> throws the exception of the
  query to its caller, and the log of calls holds the query for text views and not the query
  for image views, which comes next.
\<close>

theorem text_query_failure_aborts:
  "fst (findAllElementTypes textQueryFails (initialFoundElements, ())) = Inl (Error ''unsupported locator'')
   \<and> CFindAll ''//android.widget.TextView''
        \<in> set (logOf (snd (findAllElementTypes (traced textQueryFails) (initialFoundElements, (), []))))
   \<and> CFindAll ''//android.widget.ImageView''
        \<notin> set (logOf (snd (findAllElementTypes (traced textQueryFails) (initialFoundElements, (), []))))"
  by code_simp

section \<open>The discovery pass of the deep inspector\<close>









lemma inputOk_generate:
  "inputOk \<lparr>ie_index = i, ie_text = t, ie_hint = h, ie_resourceId = r, ie_bounds = b,
            ie_selectors = generateInputSelector h r i\<rparr>"
  by (simp add: inputOk_def generateInputSelector_last)

lemmas preservesL_rules = preserves_rules preserves_liftW_local preserves_modifyL_local

lemma preserves_inputs_discoverClickable: "preserves (onLocal inputsOk) (discoverClickable d)"
  unfolding discoverClickable_def
  by (intro preservesL_rules) (simp add: inputsOk_def)

lemma preserves_inputs_discoverInputs: "preserves (onLocal inputsOk) (discoverInputs d)"
  unfolding discoverInputs_def
  by (intro preservesL_rules) (simp add: inputsOk_def inputOk_generate)

lemma preserves_inputs_discoverTexts: "preserves (onLocal inputsOk) (discoverTexts d)"
  unfolding discoverTexts_def
  by (intro preservesL_rules) (simp add: inputsOk_def)

lemma preserves_inputs_discoverScrollable: "preserves (onLocal inputsOk) (discoverScrollable d)"
  unfolding discoverScrollable_def
  by (intro preservesL_rules) (simp add: inputsOk_def)

lemma preserves_inputs_discoverAllKinds: "preserves (onLocal inputsOk) (discoverAllKinds d)"
  unfolding discoverAllKinds_def
  by (intro preserves_rules preserves_inputs_discoverClickable preserves_inputs_discoverInputs
      preserves_inputs_discoverTexts preserves_inputs_discoverScrollable)

lemma runLocal_preserves:
  assumes "preserves (onLocal P) m" and "P i" and "runLocal i m w = (Inr (x, l), w')"
  shows "P l"
proof -
  obtain r l' w'' where ms: "m (i, w) = (r, (l', w''))" by (metis surj_pair)
  have "P l'" using preservesD[OF assms(1), of "(i, w)"] assms(2) ms by (simp add: onLocal_def)
  moreover have "l = l'" using assms(3) ms by (cases r) (simp_all add: runLocal_def)
  ultimately show ?thesis by simp
qed

lemma discover_inputsOk:
  assumes "fst (discoverElementsOnCurrentScreen d w) = Inr (Some scr)"
  shows "inputsOk (elements scr)"
proof -
  obtain info w1 where i: "getCurrentScreenInfo d w = (Inr info, w1)"
    using nothrowD[OF nothrow_getCurrentScreenInfo] by metis
  show ?thesis
  proof (cases info)
    case None
    then show ?thesis
      using i assms by (simp add: discoverElementsOnCurrentScreen_def bindE_def returnE_def)
  next
    case (Some si)
    obtain u els w2 where k: "runLocal emptyElements (discoverAllKinds d) w1 = (Inr (u, els), w2)"
      using nothrowD[OF nothrow_runLocal[OF nothrow_discoverAllKinds]] by (metis surj_pair)
    obtain shot w3 where t: "takeScreenshot d (''screen_'' @ lastSegment (activity si)) w2 = (Inr shot, w3)"
      using takeScreenshot_result by metis
    have "inputsOk els"
      by (rule runLocal_preserves[OF preserves_inputs_discoverAllKinds _ k])
         (simp add: inputsOk_def emptyElements_def)
    moreover have "elements scr = els"
      using i Some k t assms
      by (auto simp add: discoverElementsOnCurrentScreen_def bindE_def returnE_def)
    ultimately show ?thesis by simp
  qed
qed

text \<open>
  C10. In every snapshot the discovery pass returns, every entry of \<open>elements.inputs\<close> has a
  non-empty list of selectors whose last entry is the positional locator of the entry's
  index plus one; when the resource id is empty and the hint is empty after trimming, that
  locator is the whole list.
\<close>

theorem input_selectors_nonempty:
  "fst (discoverElementsOnCurrentScreen d w) = Inr (Some scr) \<Longrightarrow>
   \<forall>x \<in> set (els_inputs (elements scr)).
      ie_selectors x \<noteq> []
      \<and> positional (ie_index x + 1) \<in> set (ie_selectors x)
      \<and> last (ie_selectors x) = positional (ie_index x + 1)
      \<and> (\<not> truthy (ie_resourceId x) \<and> \<not> truthy_trimmed (ie_hint x)
           \<longrightarrow> ie_selectors x = [positional (ie_index x + 1)])"
proof
  fix x
  assume a: "fst (discoverElementsOnCurrentScreen d w) = Inr (Some scr)"
    and x: "x \<in> set (els_inputs (elements scr))"
  have ok: "inputOk x"
    using discover_inputsOk[OF a] x by (simp add: inputsOk_def list_all_iff)
  then have ne: "ie_selectors x \<noteq> []" and l: "last (ie_selectors x) = positional (ie_index x + 1)"
    and g: "ie_selectors x = generateInputSelector (ie_hint x) (ie_resourceId x) (ie_index x)"
    unfolding inputOk_def by blast+
  have "positional (ie_index x + 1) \<in> set (ie_selectors x)"
    using ne l last_in_set by metis
  moreover have "\<not> truthy (ie_resourceId x) \<and> \<not> truthy_trimmed (ie_hint x)
           \<longrightarrow> ie_selectors x = [positional (ie_index x + 1)]"
    using g by (simp add: generateInputSelector_def positional_def Let_def)
  ultimately show "ie_selectors x \<noteq> []
      \<and> positional (ie_index x + 1) \<in> set (ie_selectors x)
      \<and> last (ie_selectors x) = positional (ie_index x + 1)
      \<and> (\<not> truthy (ie_resourceId x) \<and> \<not> truthy_trimmed (ie_hint x)
           \<longrightarrow> ie_selectors x = [positional (ie_index x + 1)])"
    using ne l by simp
qed

text \<open>
  The text field of screen 0 of the small application has neither hint nor resource id: its
  selectors are the positional locator of position 1 alone.
\<close>

theorem input_selectors_nonempty_witness:
  "fst (discoverElementsOnCurrentScreen demoDriver 0) = Inr (Some demoMainScreen)
   \<and> map ie_resourceId (els_inputs (elements demoMainScreen)) = [JStr []]
   \<and> map ie_hint (els_inputs (elements demoMainScreen)) = [JStr []]
   \<and> map ie_selectors (els_inputs (elements demoMainScreen)) = [[positional 1]]
   \<and> positional 1 = ''(//android.widget.EditText)[1]''"
  using input_selectors_nonempty[OF demo_discover] demo_discover
  by (simp add: demoMainScreen_def positional_def string_of_nat.simps digit_char_def)

end
